theory Spec2Isabelle
  imports Complex_Main "HOL-Library.Char_ord" "HOL-Library.List_Lexorder"
begin

section \<open>Values and errors\<close>

text \<open>
  The program computes with NumPy double-precision numbers. They are modelled by their
  exact real value together with the three special values the code tests for or can
  produce (\<open>np.nan\<close>, \<open>np.inf\<close>, \<open>-np.inf\<close>). Rounding, overflow and the sign of a
  zero are not modelled: a finite number is a real number.
\<close>

datatype fl = Fin real | PInf | NInf | NaN

text \<open>Every \<open>raise\<close> of the code and of the libraries it calls is a value.\<close>

datatype error =
    AxisError | IndexError | ValueError | KeyError | ZeroDivisionError
  | AttributeError | TypeError | OverflowError

fun isnan :: "fl \<Rightarrow> bool" where
  "isnan NaN = True"
| "isnan _ = False"

fun isfinite :: "fl \<Rightarrow> bool" where
  "isfinite (Fin _) = True"
| "isfinite _ = False"

section \<open>Connectivity log-ratio table lookup\<close>

text \<open>
  \<open>conn_stats['log_ratio']\<close> is a two-dimensional array, here a list of rows.
  \<open>np.shape(a)[0]\<close> is the number of rows and \<open>np.shape(a)[1]\<close> the length of a row.
\<close>

type_synonym table = "fl list list"

definition shape0 :: "table \<Rightarrow> int" where
  "shape0 a = int (length a)"

definition shape1 :: "table \<Rightarrow> int" where
  "shape1 a = (case a of [] \<Rightarrow> 0 | r # _ \<Rightarrow> int (length r))"

text \<open>
  \<open>a[i]\<close> on an axis of size \<open>n\<close>: an index from \<open>-n\<close> to \<open>n - 1\<close> is accepted, a
  negative one counts from the end, any other raises \<open>IndexError\<close>.
\<close>

definition np_axis_index :: "int \<Rightarrow> int \<Rightarrow> error + nat" where
  "np_axis_index n i =
     (if 0 \<le> i \<and> i < n then Inr (nat i)
      else if - n \<le> i \<and> i < 0 then Inr (nat (i + n))
      else Inl IndexError)"

definition np_getitem2 :: "table \<Rightarrow> int \<Rightarrow> int \<Rightarrow> error + fl" where
  "np_getitem2 a i j =
     (case np_axis_index (shape0 a) i of
        Inl e \<Rightarrow> Inl e
      | Inr r \<Rightarrow>
          (case np_axis_index (shape1 a) j of
             Inl e \<Rightarrow> Inl e
           | Inr c \<Rightarrow> Inr (a ! r ! c)))"

text \<open>
  \<open>np.max(a, axis)\<close> with a scalar \<open>a\<close>: the second positional argument of \<open>np.max\<close>
  is the axis to reduce over. A scalar has no axis; NumPy lets the axes \<open>0\<close> and \<open>-1\<close>
  pass for a scalar and returns the scalar, and raises \<open>AxisError\<close> for any other.
\<close>

definition np_max_axis :: "int \<Rightarrow> int \<Rightarrow> error + int" where
  "np_max_axis a axis = (if axis = 0 \<or> axis = - 1 then Inr a else Inl AxisError)"

text \<open>
  \<^verbatim>\<open>
  def match_prob_conn_log_ratio(w1, w2, conn_stats):
      if w1>np.shape(conn_stats['log_ratio'])[0]-1 or w2>np.shape(conn_stats['log_ratio'])[1]-1:
          shift1 = w1 - np.shape(conn_stats['log_ratio'])[0]-1
          shift2 = w2 - np.shape(conn_stats['log_ratio'])[1]-1
          w1 = w1 - np.max( shift1, shift2 )
          w2 = w2 - np.max( shift1, shift2 )
      if w1>0 or w2>0:
          return conn_stats['log_ratio'][w1,w2]
      else:
          return 0.0
  \<close>
\<close>

definition conn_lookup :: "table \<Rightarrow> int \<Rightarrow> int \<Rightarrow> error + fl" where
  "conn_lookup log_ratio w1 w2 =
     (if w1 > 0 \<or> w2 > 0 then np_getitem2 log_ratio w1 w2 else Inr (Fin 0))"

definition match_prob_conn_log_ratio :: "int \<Rightarrow> int \<Rightarrow> table \<Rightarrow> error + fl" where
  "match_prob_conn_log_ratio w1 w2 log_ratio =
     (if w1 > shape0 log_ratio - 1 \<or> w2 > shape1 log_ratio - 1 then
        (let shift1 = w1 - shape0 log_ratio - 1;
             shift2 = w2 - shape1 log_ratio - 1
         in case np_max_axis shift1 shift2 of
              Inl e \<Rightarrow> Inl e
            | Inr m1 \<Rightarrow>
                (case np_max_axis shift1 shift2 of
                   Inl e \<Rightarrow> Inl e
                 | Inr m2 \<Rightarrow> conn_lookup log_ratio (w1 - m1) (w2 - m2)))
      else conn_lookup log_ratio w1 w2)"

section \<open>Resampling a path\<close>

type_synonym point = "real \<times> real \<times> real"

definition px :: "point \<Rightarrow> real" where "px p = fst p"
definition py :: "point \<Rightarrow> real" where "py p = fst (snd p)"
definition pz :: "point \<Rightarrow> real" where "pz p = snd (snd p)"

definition psub :: "point \<Rightarrow> point \<Rightarrow> point" where
  "psub p q = (px p - px q, py p - py q, pz p - pz q)"

text \<open>\<open>np.linalg.norm\<close> of a vector of three components.\<close>

definition norm3 :: "point \<Rightarrow> real" where
  "norm3 p = sqrt ((px p)\<^sup>2 + (py p)\<^sup>2 + (pz p)\<^sup>2)"

text \<open>\<open>np.diff(xyz, axis=0)\<close>: the differences of consecutive rows.\<close>

fun np_diff :: "point list \<Rightarrow> point list" where
  "np_diff (p # q # r) = psub q p # np_diff (q # r)"
| "np_diff _ = []"

text \<open>\<open>np.cumsum\<close>, with the running sum as an accumulator.\<close>

fun cumsum_from :: "real \<Rightarrow> real list \<Rightarrow> real list" where
  "cumsum_from acc [] = []"
| "cumsum_from acc (x # xs) = (acc + x) # cumsum_from (acc + x) xs"

definition cumlen_of :: "point list \<Rightarrow> real list" where
  "cumlen_of xyz = 0 # cumsum_from 0 (map norm3 (np_diff xyz))"

text \<open>
  \<open>np.modf\<close>: the fractional and the integral part of a number, both with its sign
  (the integral part is the number truncated towards zero).
\<close>

definition trunc :: "real \<Rightarrow> real" where
  "trunc x = (if 0 \<le> x then of_int \<lfloor>x\<rfloor> else of_int \<lceil>x\<rceil>)"

definition modf :: "real \<Rightarrow> real \<times> real" where
  "modf x = (x - trunc x, trunc x)"

text \<open>
  The number of resampled points, lines 156 to 162:
  \<^verbatim>\<open>
  parts = np.modf( cumlen[-1] / resample_distance )
  if parts[1] < 1:
      nni = 1
  elif parts[0] < 0.5 and parts[1] > 0:
      nni = parts[1]
  else:
      nni = parts[1]+1
  \<close>
\<close>

definition resample_nni :: "real \<Rightarrow> real \<Rightarrow> real" where
  "resample_nni plen resample_distance =
     (let parts = modf (plen / resample_distance)
      in if snd parts < 1 then 1
         else if fst parts < 1 / 2 \<and> snd parts > 0 then snd parts
         else snd parts + 1)"

text \<open>
  \<open>np.linspace(start, stop, num)\<close>: \<open>num\<close> evenly spaced numbers from \<open>start\<close> to
  \<open>stop\<close>, the single number \<open>start\<close> when \<open>num\<close> is 1.
\<close>

definition linspace :: "real \<Rightarrow> real \<Rightarrow> nat \<Rightarrow> real list" where
  "linspace start stop num =
     (if num = 1 then [start]
      else map (\<lambda>i. start + real i * ((stop - start) / real (num - 1))) [0..<num])"

text \<open>
  \<open>np.interp(x, xp, fp)\<close> at one \<open>x\<close>, for sample points \<open>xp\<close> that do not decrease:
  the value of the piecewise linear interpolant, \<open>fp[0]\<close> to the left of the sample
  points and \<open>fp[-1]\<close> to their right. The segment is the last one that starts at or
  before \<open>x\<close>, and a sample point that is hit exactly gives its own value.
\<close>

definition interp_index :: "real \<Rightarrow> real list \<Rightarrow> nat" where
  "interp_index x xp = length (takeWhile (\<lambda>v. v \<le> x) (tl xp))"

definition np_interp :: "real \<Rightarrow> real list \<Rightarrow> real list \<Rightarrow> real" where
  "np_interp x xp fp =
     (if x > last xp then last fp
      else if x < hd xp then hd fp
      else (let j = interp_index x xp
            in if j = length xp - 1 then fp ! j
               else if xp ! j = x then fp ! j
               else (fp ! (j + 1) - fp ! j) / (xp ! (j + 1) - xp ! j) * (x - xp ! j) + fp ! j))"

text \<open>
  \<^verbatim>\<open>
  def interpolate_path( xyz, resample_distance ):
      xs = [x[0] for x in xyz]
      ys = [x[1] for x in xyz]
      zs = [x[2] for x in xyz]
      lens = [np.linalg.norm(u) for u in np.diff(xyz, axis=0)]
      cumlen = np.insert( np.cumsum(lens ), 0, 0 )
      parts = np.modf( cumlen[-1] / resample_distance )
      ...
      li = np.linspace(0,cumlen[-1],int(nni))
      xi = np.interp(li, cumlen, xs)
      yi = np.interp(li, cumlen, ys)
      zi = np.interp(li, cumlen, zs)
      return np.array( [ [xi[ind], yi[ind], zi[ind]] for ind,val in enumerate(xi)] )
  \<close>
  A resample distance of zero makes the quotient infinite, or not a number when the
  path has length zero, and \<open>int(nni)\<close> raises. An empty path makes \<open>np.interp\<close> raise,
  because \<open>cumlen\<close> has one entry and \<open>xs\<close> none.
\<close>

definition interpolate_path :: "point list \<Rightarrow> real \<Rightarrow> error + point list" where
  "interpolate_path xyz resample_distance =
     (let xs = map px xyz; ys = map py xyz; zs = map pz xyz;
          cumlen = cumlen_of xyz;
          plen = last cumlen
      in if resample_distance = 0 then
           (if plen = 0 then Inl ValueError else Inl OverflowError)
         else
           (let nni = resample_nni plen resample_distance;
                li = linspace 0 plen (nat \<lfloor>nni\<rfloor>)
            in if xyz = [] then Inl ValueError
               else Inr (map (\<lambda>l. (np_interp l cumlen xs, np_interp l cumlen ys,
                                      np_interp l cumlen zs)) li)))"

section \<open>Arithmetic on numbers with special values\<close>

text \<open>
  NumPy arithmetic does not raise on special values: a division by zero gives an
  infinity or \<open>nan\<close>, the logarithm of zero is \<open>-inf\<close> and of a negative number \<open>nan\<close>,
  and every comparison with \<open>nan\<close> is false.
\<close>

fun fl_neg :: "fl \<Rightarrow> fl" where
  "fl_neg (Fin a) = Fin (- a)"
| "fl_neg PInf = NInf"
| "fl_neg NInf = PInf"
| "fl_neg NaN = NaN"

fun fl_add :: "fl \<Rightarrow> fl \<Rightarrow> fl" where
  "fl_add NaN _ = NaN"
| "fl_add _ NaN = NaN"
| "fl_add (Fin a) (Fin b) = Fin (a + b)"
| "fl_add PInf NInf = NaN"
| "fl_add NInf PInf = NaN"
| "fl_add PInf _ = PInf"
| "fl_add _ PInf = PInf"
| "fl_add NInf _ = NInf"
| "fl_add _ NInf = NInf"

definition fl_sub :: "fl \<Rightarrow> fl \<Rightarrow> fl" where
  "fl_sub a b = fl_add a (fl_neg b)"

text \<open>The infinity with the sign of a real number, \<open>nan\<close> for zero.\<close>

definition signed_inf :: "real \<Rightarrow> fl" where
  "signed_inf a = (if a > 0 then PInf else if a < 0 then NInf else NaN)"

fun fl_mul :: "fl \<Rightarrow> fl \<Rightarrow> fl" where
  "fl_mul NaN _ = NaN"
| "fl_mul _ NaN = NaN"
| "fl_mul (Fin a) (Fin b) = Fin (a * b)"
| "fl_mul (Fin a) PInf = signed_inf a"
| "fl_mul (Fin a) NInf = signed_inf (- a)"
| "fl_mul PInf (Fin b) = signed_inf b"
| "fl_mul NInf (Fin b) = signed_inf (- b)"
| "fl_mul PInf PInf = PInf"
| "fl_mul NInf NInf = PInf"
| "fl_mul PInf NInf = NInf"
| "fl_mul NInf PInf = NInf"

fun fl_div :: "fl \<Rightarrow> fl \<Rightarrow> fl" where
  "fl_div NaN _ = NaN"
| "fl_div _ NaN = NaN"
| "fl_div (Fin a) (Fin b) = (if b \<noteq> 0 then Fin (a / b) else signed_inf a)"
| "fl_div (Fin a) _ = Fin 0"
| "fl_div PInf (Fin b) = (if b \<ge> 0 then PInf else NInf)"
| "fl_div NInf (Fin b) = (if b \<ge> 0 then NInf else PInf)"
| "fl_div _ _ = NaN"

fun fl_exp :: "fl \<Rightarrow> fl" where
  "fl_exp (Fin a) = Fin (exp a)"
| "fl_exp PInf = PInf"
| "fl_exp NInf = Fin 0"
| "fl_exp NaN = NaN"

fun fl_log2 :: "fl \<Rightarrow> fl" where
  "fl_log2 (Fin a) = (if a > 0 then Fin (log 2 a) else if a = 0 then NInf else NaN)"
| "fl_log2 PInf = PInf"
| "fl_log2 _ = NaN"

fun fl_sqrt :: "fl \<Rightarrow> fl" where
  "fl_sqrt (Fin a) = (if a \<ge> 0 then Fin (sqrt a) else NaN)"
| "fl_sqrt PInf = PInf"
| "fl_sqrt _ = NaN"

fun fl_less :: "fl \<Rightarrow> fl \<Rightarrow> bool" where
  "fl_less NaN _ = False"
| "fl_less _ NaN = False"
| "fl_less (Fin a) (Fin b) = (a < b)"
| "fl_less _ NInf = False"
| "fl_less NInf _ = True"
| "fl_less PInf _ = False"
| "fl_less _ PInf = True"

section \<open>Morphology log-likelihood ratio\<close>

text \<open>
  \<open>morpho_stats\<close> is a dictionary with the keys \<open>shape\<close> (three numbers),
  \<open>dist_match\<close>, \<open>dist_nonmatch\<close> (the parameters handed to the gamma density) and
  \<open>exp_cutoff\<close> (two numbers).
\<close>

record 'p morpho_stats =
  shape :: "fl \<times> fl \<times> fl"
  dist_match :: 'p
  dist_nonmatch :: 'p
  exp_cutoff :: "fl \<times> fl"

text \<open>
  \<^verbatim>\<open>
  def _logistic_ratio( x, shape_param ):
      val = shape_param[0] / ( 1 + np.exp( -1 * shape_param[1] * (x - shape_param[2]) ) )
      return np.log2(val)-np.log2(1.0-val)
  \<close>
\<close>

definition logistic_ratio :: "fl \<Rightarrow> fl \<times> fl \<times> fl \<Rightarrow> fl" where
  "logistic_ratio x shape_param =
     (case shape_param of (s0, s1, s2) \<Rightarrow>
        (let val = fl_div s0
               (fl_add (Fin 1) (fl_exp (fl_mul (fl_mul (Fin (- 1)) s1) (fl_sub x s2))))
         in fl_sub (fl_log2 val) (fl_log2 (fl_sub (Fin 1) val))))"

text \<open>
  \<^verbatim>\<open>
  def _gamma_ratio( xs, match_param, nonmatch_param, exp_param ):
      num = sp.stats.gamma.pdf( xs, *match_param )
      denom = sp.stats.gamma.pdf( xs, *nonmatch_param)
      val = num / (num+denom) * ( 1-exp_param[0] * np.exp(-xs/exp_param[1]))
      return np.log2(val) - np.log2(1.0-val)
  \<close>
  at one entry of \<open>xs\<close>. The density \<open>sp.stats.gamma.pdf\<close> is the parameter \<open>pdf\<close>.
\<close>

definition gamma_ratio ::
  "(fl \<Rightarrow> 'p \<Rightarrow> fl) \<Rightarrow> fl \<Rightarrow> 'p \<Rightarrow> 'p \<Rightarrow> fl \<times> fl \<Rightarrow> fl" where
  "gamma_ratio pdf x match_param nonmatch_param exp_param =
     (let num = pdf x match_param;
          denom = pdf x nonmatch_param;
          val = fl_mul (fl_div num (fl_add num denom))
                  (fl_sub (Fin 1)
                     (fl_mul (fst exp_param) (fl_exp (fl_div (fl_neg x) (snd exp_param)))))
      in fl_sub (fl_log2 val) (fl_log2 (fl_sub (Fin 1) val)))"

text \<open>
  \<^verbatim>\<open>
  def match_prob_morpho_log_ratio( S, d, morpho_stats ):
      Sprob = _logistic_ratio( S, morpho_stats['shape'])
      dprob = _gamma_ratio(d, morpho_stats['dist_match'], morpho_stats['dist_nonmatch'],
                           morpho_stats['exp_cutoff'] )
      dprob[ np.isnan(dprob) ] = 1.0
      return Sprob + dprob
  \<close>
  \<open>S\<close> and \<open>d\<close> are two columns of one table, entry \<open>i\<close> of each belonging to pair \<open>i\<close>.
\<close>

definition nan_to_one :: "fl \<Rightarrow> fl" where
  "nan_to_one v = (if isnan v then Fin 1 else v)"

definition match_prob_morpho_log_ratio ::
  "(fl \<Rightarrow> 'p \<Rightarrow> fl) \<Rightarrow> fl list \<Rightarrow> fl list \<Rightarrow> 'p morpho_stats \<Rightarrow> fl list" where
  "match_prob_morpho_log_ratio pdf S d ms =
     (let Sprob = map (\<lambda>x. logistic_ratio x (shape ms)) S;
          dprob = map (\<lambda>x. gamma_ratio pdf x (dist_match ms) (dist_nonmatch ms) (exp_cutoff ms)) d;
          dprob' = map nan_to_one dprob
      in map2 fl_add Sprob dprob')"

text \<open>
  SciPy's gamma density \<open>gamma.pdf(x, a, loc, scale)\<close> at a finite \<open>x\<close>, for a shape
  \<open>a\<close> that is a natural number (then \<open>\<Gamma>(a) = (a - 1)!\<close>): zero to the left of \<open>loc\<close>,
  \<open>y\<^sup>a\<^sup>-\<^sup>1 e\<^sup>-\<^sup>y / (\<Gamma>(a) scale)\<close> with \<open>y = (x - loc) / scale\<close> from \<open>loc\<close> on, and \<open>nan\<close>
  for parameters that are not valid. At an \<open>x\<close> that is not finite the model gives
  \<open>nan\<close>; no result below depends on that.
\<close>

definition gamma_pdf :: "fl \<Rightarrow> nat \<times> real \<times> real \<Rightarrow> fl" where
  "gamma_pdf x p =
     (case p of (a, loc, scale) \<Rightarrow>
        (case x of
           Fin r \<Rightarrow>
             (if a = 0 \<or> scale \<le> 0 then NaN
              else (let y = (r - loc) / scale
                    in if y < 0 then Fin 0
                       else Fin (y ^ (a - 1) * exp (- y) / (fact (a - 1) * scale))))
         | _ \<Rightarrow> NaN))"

text \<open>
  Example parameters: the match density starts at distance 100, the non-match density at
  distance 20, and the exponential correction is switched off.
\<close>

definition morpho_stats_example :: "(nat \<times> real \<times> real) morpho_stats" where
  "morpho_stats_example =
     \<lparr>shape = (Fin (1 / 2), Fin 1, Fin 0), dist_match = (2, 100, 1),
      dist_nonmatch = (1, 20, 100), exp_cutoff = (Fin 0, Fin 1)\<rparr>"

section \<open>Score table\<close>

text \<open>Sequencing of computations that can raise.\<close>

definition bind_err :: "error + 'a \<Rightarrow> ('a \<Rightarrow> error + 'b) \<Rightarrow> error + 'b" where
  "bind_err m f = (case m of Inl e \<Rightarrow> Inl e | Inr x \<Rightarrow> f x)"

fun mapM_err :: "('a \<Rightarrow> error + 'b) \<Rightarrow> 'a list \<Rightarrow> error + 'b list" where
  "mapM_err f [] = Inr []"
| "mapM_err f (x # xs) =
     bind_err (f x) (\<lambda>y. bind_err (mapM_err f xs) (\<lambda>ys. Inr (y # ys)))"

text \<open>
  \<open>ScoreMatrixLookup\<close>: the matrix of scores and, for each axis, the bin boundaries
  that \<open>process_range_values\<close> has left.
\<close>

record score_lookup =
  mat :: table
  d_range :: "fl list"
  udotv_range :: "fl list"

text \<open>
  \<open>bisect(a, x)\<close> of the standard library:
  \<^verbatim>\<open>
  lo, hi = 0, len(a)
  while lo < hi:
      mid = (lo + hi) // 2
      if x < a[mid]: hi = mid
      else: lo = mid + 1
  return lo
  \<close>
\<close>

function bisect_loop :: "fl list \<Rightarrow> fl \<Rightarrow> nat \<Rightarrow> nat \<Rightarrow> nat" where
  "bisect_loop a x lo hi =
     (if lo < hi then
        (let mid = (lo + hi) div 2
         in if fl_less x (a ! mid) then bisect_loop a x lo mid
            else bisect_loop a x (mid + 1) hi)
      else lo)"
  by pat_completeness auto
termination
  by (relation "measure (\<lambda>(a, x, lo, hi). hi - lo)") auto

definition bisect :: "fl list \<Rightarrow> fl \<Rightarrow> nat" where
  "bisect a x = bisect_loop a x 0 (length a)"

text \<open>
  \<^verbatim>\<open>
  def score( self, d, udotv ):
      ind_d = bisect( self.d_range, d )
      ind_udotv = bisect( self.udotv_range, udotv )
      return self.mat[ind_d,ind_udotv]
  \<close>
\<close>

definition score :: "score_lookup \<Rightarrow> fl \<Rightarrow> fl \<Rightarrow> error + fl" where
  "score sl d udotv =
     (let ind_d = bisect (d_range sl) d;
          ind_udotv = bisect (udotv_range sl) udotv
      in np_getitem2 (mat sl) (int ind_d) (int ind_udotv))"

text \<open>
  \<^verbatim>\<open>
  def nblast_dist_fun( d_and_udotv, score_lookup ):
      S = 0
      if np.shape(d_and_udotv)[1] != 2:
          raise ValueError( "Scores must only have two components")
      for row in d_and_udotv:
          S += score_lookup.score( d=row[0], udotv=row[1] )
      return S
  \<close>
  A row of \<open>d_and_udotv\<close> is a pair, so the array has two columns.
\<close>

fun dist_fun_loop :: "fl \<Rightarrow> (fl \<times> fl) list \<Rightarrow> score_lookup \<Rightarrow> error + fl" where
  "dist_fun_loop S [] sl = Inr S"
| "dist_fun_loop S (row # rows) sl =
     bind_err (score sl (fst row) (snd row)) (\<lambda>v. dist_fun_loop (fl_add S v) rows sl)"

definition nblast_dist_fun :: "(fl \<times> fl) list \<Rightarrow> score_lookup \<Rightarrow> error + fl" where
  "nblast_dist_fun d_and_udotv sl = dist_fun_loop (Fin 0) d_and_udotv sl"

text \<open>
  \<^verbatim>\<open>
  def max_blast_score( L, score_lookup ):
      d_and_udotv = np.transpose( np.vstack( (np.zeros( L ), np.ones( L )) ) )
      return nblast_dist_fun( d_and_udotv, score_lookup )
  \<close>
\<close>

definition max_blast_score :: "nat \<Rightarrow> score_lookup \<Rightarrow> error + fl" where
  "max_blast_score L sl = nblast_dist_fun (replicate L (Fin 0, Fin 1)) sl"

section \<open>Dotprops and neurons\<close>

text \<open>
  A dotprop is an array with six columns: a row is a position and an orientation.
  The row made by \<open>np.zeros((1,6)) * np.nan\<close> has \<open>nan\<close> in every column.
\<close>

type_synonym fvec = "fl \<times> fl \<times> fl"
type_synonym dprow = "fvec \<times> fvec"
type_synonym dotprop = "dprow list"

definition nan_row :: dprow where
  "nan_row = ((NaN, NaN, NaN), (NaN, NaN, NaN))"

definition fvec_of :: "point \<Rightarrow> fvec" where
  "fvec_of p = (Fin (px p), Fin (py p), Fin (pz p))"

fun point_of :: "fvec \<Rightarrow> point option" where
  "point_of (Fin x, Fin y, Fin z) = Some (x, y, z)"
| "point_of _ = None"

definition fdot :: "fvec \<Rightarrow> fvec \<Rightarrow> fl" where
  "fdot u v =
     (case u of (u1, u2, u3) \<Rightarrow> case v of (v1, v2, v3) \<Rightarrow>
        fl_add (fl_add (fl_mul u1 v1) (fl_mul u2 v2)) (fl_mul u3 v3))"

text \<open>
  The neuron provider is not part of this file of the repository. A neuron is the data
  the code reads from it: \<open>id\<close>, \<open>name\<close>, \<open>minimal_paths()\<close> (lists of node ids),
  the dictionary \<open>nodeloc\<close>, the dictionary \<open>strahler_number()\<close> and \<open>soma_location()\<close>.
\<close>

record neuron =
  nid :: int
  nname :: string
  minimal_paths :: "nat list list"
  nodeloc :: "(nat \<times> point) list"
  strahler_number :: "(nat \<times> int) list"
  soma_location :: point

definition dict_get :: "('k \<times> 'v) list \<Rightarrow> 'k \<Rightarrow> error + 'v" where
  "dict_get m k = (case map_of m k of None \<Rightarrow> Inl KeyError | Some v \<Rightarrow> Inr v)"

text \<open>
  \<^verbatim>\<open>
  def dotprop_path( xyz, resample_distance, num_nn=5 ):
      xyzi = interpolate_path( xyz, resample_distance=resample_distance)
      dist_tree = sp.spatial.KDTree( xyzi )
      v = []
      query_nn = np.min( (num_nn+1, len(xyzi)) )
      for n in xyzi:
          nnxyz = xyzi[ dist_tree.query( n, query_nn  )[1] ]
          nnxyz_c = nnxyz - np.matlib.repmat( np.mean(nnxyz, axis=0), len(nnxyz), 1 )
          U,s,Vh = np.linalg.svd(nnxyz_c)
          v.append(Vh[0])
      v = np.array(v)
      return np.concatenate( (xyzi, v), axis=1 )
  \<close>
  The body of the loop (the neighbours of a point, their centring and the singular value
  decomposition) is numerical library code; it is the parameter \<open>orient\<close>, which gets
  the resampled path, \<open>query_nn\<close> and the point.
\<close>

type_synonym orient_fun = "point list \<Rightarrow> nat \<Rightarrow> point \<Rightarrow> fvec"

definition dotprop_path :: "orient_fun \<Rightarrow> point list \<Rightarrow> real \<Rightarrow> nat \<Rightarrow> error + dotprop" where
  "dotprop_path orient xyz resample_distance num_nn =
     bind_err (interpolate_path xyz resample_distance) (\<lambda>xyzi.
       (let query_nn = min (num_nn + 1) (length xyzi);
            v = map (\<lambda>n. orient xyzi query_nn n) xyzi
        in Inr (map2 (\<lambda>p u. (fvec_of p, u)) xyzi v)))"

text \<open>
  \<^verbatim>\<open>
  def neuron_to_dotprop( nrn, resample_distance=1000, num_nn=5, min_strahler=None ):
      pths = nrn.minimal_paths()
      if min_strahler is not None:
          sn = nrn.strahler_number()
          if min_strahler > np.max( list( sn.values() ) ):
              return(np.zeros((1,6)) * np.nan)
          if min_strahler>0:
              for ind, pth in enumerate(pths):
                  pths[ind] = [nid for nid in pth if sn[nid]>=min_strahler]
          else:
              min_strahler = np.max( list( sn.values() ) ) + min_strahler
              for ind, pth in enumerate(pths):
                  pths[ind] = [nid for nid in pth if sn[nid]>=min_strahler]
      dp = []
      for ind, pth in enumerate(pths):
          if len(pth) > 0:
              dp.append( dotprop_path( [nrn.nodeloc[nid] for nid in pth],
                                    resample_distance=resample_distance, num_nn=num_nn ) )
      if len(dp) > 0:
          return np.vstack(dp)
      else:
          return np.nan * np.zeros((1,6))
  \<close>
  \<open>np.max\<close> of an empty list raises \<open>ValueError\<close>, a missing dictionary key \<open>KeyError\<close>.
\<close>

fun filter_err :: "('a \<Rightarrow> error + bool) \<Rightarrow> 'a list \<Rightarrow> error + 'a list" where
  "filter_err P [] = Inr []"
| "filter_err P (x # xs) =
     bind_err (P x) (\<lambda>b. bind_err (filter_err P xs) (\<lambda>ys. Inr (if b then x # ys else ys)))"

definition strahler_filter ::
  "(nat \<times> int) list \<Rightarrow> int \<Rightarrow> nat list list \<Rightarrow> error + nat list list" where
  "strahler_filter sn min_strahler pths =
     mapM_err (filter_err (\<lambda>nid. bind_err (dict_get sn nid) (\<lambda>s. Inr (s \<ge> min_strahler)))) pths"

definition paths_to_dotprop ::
  "orient_fun \<Rightarrow> neuron \<Rightarrow> real \<Rightarrow> nat \<Rightarrow> nat list list \<Rightarrow> error + dotprop" where
  "paths_to_dotprop orient nrn resample_distance num_nn pths =
     bind_err
       (mapM_err
          (\<lambda>pth. bind_err (mapM_err (dict_get (nodeloc nrn)) pth)
                   (\<lambda>xyz. dotprop_path orient xyz resample_distance num_nn))
          (filter (\<lambda>pth. length pth > 0) pths))
       (\<lambda>dp. if length dp > 0 then Inr (concat dp) else Inr [nan_row])"

definition neuron_to_dotprop ::
  "orient_fun \<Rightarrow> neuron \<Rightarrow> real \<Rightarrow> nat \<Rightarrow> int option \<Rightarrow> error + dotprop" where
  "neuron_to_dotprop orient nrn resample_distance num_nn min_strahler =
     (let pths = minimal_paths nrn
      in case min_strahler of
           None \<Rightarrow> paths_to_dotprop orient nrn resample_distance num_nn pths
         | Some ms \<Rightarrow>
             (let sn = strahler_number nrn; vals = map snd sn
              in if vals = [] then Inl ValueError
                 else if ms > Max (set vals) then Inr [nan_row]
                 else bind_err
                        (strahler_filter sn (if ms > 0 then ms else Max (set vals) + ms) pths)
                        (paths_to_dotprop orient nrn resample_distance num_nn)))"

section \<open>NBLAST components of a pair\<close>

definition dist3 :: "point \<Rightarrow> point \<Rightarrow> real" where
  "dist3 p q = norm3 (psub p q)"

text \<open>
  \<open>KDTree(data).query(x, 1)\<close>: for every point of \<open>x\<close> the distance to its nearest point
  of \<open>data\<close> and the index of that point. The search is modelled by a scan that keeps
  the first point at the least distance. SciPy rejects coordinates that are not finite
  with \<open>ValueError\<close>, and reports a neighbour that does not exist (no data) by an
  infinite distance and the index \<open>len(data)\<close>.
\<close>

fun nearest_acc :: "point \<Rightarrow> point list \<Rightarrow> nat \<Rightarrow> real \<Rightarrow> nat \<Rightarrow> real \<times> nat" where
  "nearest_acc q [] i bd bi = (bd, bi)"
| "nearest_acc q (t # ts) i bd bi =
     (if dist3 q t < bd then nearest_acc q ts (i + 1) (dist3 q t) i
      else nearest_acc q ts (i + 1) bd bi)"

definition nearest :: "point \<Rightarrow> point list \<Rightarrow> fl \<times> nat" where
  "nearest q ts =
     (case ts of
        [] \<Rightarrow> (PInf, 0)
      | t # r \<Rightarrow> (case nearest_acc q r 1 (dist3 q t) 0 of (d, i) \<Rightarrow> (Fin d, i)))"

definition kd_query :: "fvec list \<Rightarrow> fvec list \<Rightarrow> error + (fl \<times> nat) list" where
  "kd_query data x =
     (case those (map point_of data) of
        None \<Rightarrow> Inl ValueError
      | Some ts \<Rightarrow>
          (case those (map point_of x) of
             None \<Rightarrow> Inl ValueError
           | Some qs \<Rightarrow> Inr (map (\<lambda>q. nearest q ts) qs)))"

text \<open>The builtin \<open>min\<close> of a sequence: it raises \<open>ValueError\<close> on an empty one.\<close>

fun py_min_loop :: "fl \<Rightarrow> fl list \<Rightarrow> fl" where
  "py_min_loop best [] = best"
| "py_min_loop best (x # xs) = py_min_loop (if fl_less x best then x else best) xs"

definition py_min :: "fl list \<Rightarrow> error + fl" where
  "py_min xs = (case xs of [] \<Rightarrow> Inl ValueError | x # r \<Rightarrow> Inr (py_min_loop x r))"

text \<open>
  The functions take either neurons or, with \<open>as_dotprop\<close>, dotprops. A neuron where a
  dotprop is expected cannot be sliced (\<open>TypeError\<close>); a dotprop where a neuron is
  expected has no method \<open>minimal_paths\<close> (\<open>AttributeError\<close>).
\<close>

datatype nrn_or_dp = Nrn neuron | Dp dotprop

definition as_dp ::
  "orient_fun \<Rightarrow> nrn_or_dp \<Rightarrow> real \<Rightarrow> nat \<Rightarrow> bool \<Rightarrow> error + dotprop" where
  "as_dp orient x resample_distance num_nn as_dotprop =
     (if as_dotprop then (case x of Dp dp \<Rightarrow> Inr dp | Nrn _ \<Rightarrow> Inl TypeError)
      else (case x of
              Nrn nrn \<Rightarrow> neuron_to_dotprop orient nrn resample_distance num_nn None
            | Dp _ \<Rightarrow> Inl AttributeError))"

text \<open>
  \<^verbatim>\<open>
  def neuron_comparison_nblast_components( source_nrn, target_nrn, resample_distance=1000,
                                           num_nn=5, as_dotprop = False, max_proximity = None ):
      if max_proximity is None:
          max_proximity = np.inf
      if as_dotprop:
          source_dp = source_nrn
          target_dp = target_nrn
      else:
          source_dp = neuron_to_dotprop( source_nrn, resample_distance=resample_distance, num_nn=num_nn)
          target_dp = neuron_to_dotprop( target_nrn, resample_distance=resample_distance, num_nn=num_nn)
      udotv = []
      dist_tree = sp.spatial.KDTree( target_dp[:,0:3] )
      ds = dist_tree.query( source_dp[:,0:3], 1 )
      if min(ds[0]) > max_proximity:
          d_and_udotv = np.zeros( (len(ds[0]),2) )
          d_and_udotv[:,0] = ds[0]
          d_and_udotv[:,1] = np.einsum('ij,ij->i', source_dp[:,3:], target_dp[ds[1],3:])
      else:
          d_and_udotv = np.zeros( (len(ds[0]),2) )
          d_and_udotv[:,0] = ds[0]
          d_and_udotv[:,1] = np.ones(np.shape(ds[0]))
      return d_and_udotv
  \<close>
\<close>

definition neuron_comparison_nblast_components ::
  "orient_fun \<Rightarrow> nrn_or_dp \<Rightarrow> nrn_or_dp \<Rightarrow> real \<Rightarrow> nat \<Rightarrow> bool \<Rightarrow> fl option
     \<Rightarrow> error + (fl \<times> fl) list" where
  "neuron_comparison_nblast_components orient source_nrn target_nrn resample_distance num_nn
       as_dotprop max_proximity =
     (let mp = (case max_proximity of None \<Rightarrow> PInf | Some m \<Rightarrow> m)
      in bind_err (as_dp orient source_nrn resample_distance num_nn as_dotprop) (\<lambda>source_dp.
         bind_err (as_dp orient target_nrn resample_distance num_nn as_dotprop) (\<lambda>target_dp.
         bind_err (kd_query (map fst target_dp) (map fst source_dp)) (\<lambda>ds.
         bind_err (py_min (map fst ds)) (\<lambda>m.
           if fl_less mp m then
             (if list_ex (\<lambda>di. snd di \<ge> length target_dp) ds then Inl IndexError
              else Inr (map2 (\<lambda>s di. (fst di, fdot (snd s) (snd (target_dp ! snd di))))
                          source_dp ds))
           else Inr (map (\<lambda>di. (fst di, Fin 1)) ds))))))"

text \<open>
  \<^verbatim>\<open>
  def _nblast_neuron_pair_for_mp( input ):
      nrn_q_dotprop = input[0]
      ...
      max_proximity = input[6]
      if len( nrn_q_dotprop ) > 1 and len(nrn_t_dotprop) > 1:
          d_and_udotv = neuron_comparison_nblast_components( nrn_q_dotprop, nrn_t_dotprop,
              resample_distance=resample_distance, num_nn = num_nn, as_dotprop = True,
              max_proximity=max_proximity )
          S = nblast_dist_fun( d_and_udotv, score_lookup )
          if normalize:
              S = S / max_blast_score( len(d_and_udotv), score_lookup )
      else:
          S = 0
      return S
  \<close>
\<close>

type_synonym mp_input = "dotprop \<times> dotprop \<times> score_lookup \<times> real \<times> nat \<times> bool \<times> fl option"

definition nblast_neuron_pair_for_mp :: "orient_fun \<Rightarrow> mp_input \<Rightarrow> error + fl" where
  "nblast_neuron_pair_for_mp orient inp =
     (case inp of
        (nrn_q_dotprop, nrn_t_dotprop, sl, resample_distance, num_nn, normalize_flag, max_proximity) \<Rightarrow>
          (if length nrn_q_dotprop > 1 \<and> length nrn_t_dotprop > 1 then
             bind_err
               (neuron_comparison_nblast_components orient (Dp nrn_q_dotprop) (Dp nrn_t_dotprop)
                  resample_distance num_nn True max_proximity) (\<lambda>d_and_udotv.
             bind_err (nblast_dist_fun d_and_udotv sl) (\<lambda>S.
               if normalize_flag then
                 bind_err (max_blast_score (length d_and_udotv) sl) (\<lambda>M. Inr (fl_div S M))
               else Inr S))
           else Inr (Fin 0)))"

text \<open>
  \<^verbatim>\<open>
  def nblast_neuron_pair( nrn_q, nrn_t, score_lookup, resample_distance = 1000, num_nn = 5,
                          bidirectional = False, normalize = False ):
      d_and_udotv = neuron_comparison_nblast_components( nrn_q, nrn_t,
                        resample_distance=resample_distance, num_nn = num_nn )
      S_a = nblast_dist_fun( d_and_udotv, score_lookup )
      if bidirectional:
          d_and_udotv_b = neuron_comparison_nblast_components( nrn_t, nrn_q,
                              resample_distance=resample_distance, num_nn = num_nn )
          S_b = nblast_dist_fun( d_and_udotv, score_lookup )
          S_a = S_a / max_blast_score( len(d_and_udotv), score_lookup )
          S_b = S_b / max_blast_score( len(d_and_udotv), score_lookup )
          S_a = max(S_a, 0)
          S_b = max(S_b, 0)
          S = np.sqrt( S_a * S_b )
      elif normalize:
          S = S_a / max_blast_score( len(d_and_udotv), score_lookup )
      else:
          S = S_a
      return S
  \<close>
  The builtin \<open>max(x, 0)\<close> is \<open>x\<close> unless \<open>0 > x\<close>.
\<close>

definition py_max0 :: "fl \<Rightarrow> fl" where
  "py_max0 x = (if fl_less x (Fin 0) then Fin 0 else x)"

definition nblast_neuron_pair ::
  "orient_fun \<Rightarrow> neuron \<Rightarrow> neuron \<Rightarrow> score_lookup \<Rightarrow> real \<Rightarrow> nat \<Rightarrow> bool \<Rightarrow> bool
     \<Rightarrow> error + fl" where
  "nblast_neuron_pair orient nrn_q nrn_t sl resample_distance num_nn bidirectional normalize_flag =
     bind_err
       (neuron_comparison_nblast_components orient (Nrn nrn_q) (Nrn nrn_t)
          resample_distance num_nn False None) (\<lambda>d_and_udotv.
     bind_err (nblast_dist_fun d_and_udotv sl) (\<lambda>S_a.
       if bidirectional then
         bind_err
           (neuron_comparison_nblast_components orient (Nrn nrn_t) (Nrn nrn_q)
              resample_distance num_nn False None) (\<lambda>d_and_udotv_b.
         bind_err (nblast_dist_fun d_and_udotv sl) (\<lambda>S_b.
         bind_err (max_blast_score (length d_and_udotv) sl) (\<lambda>M_a.
         bind_err (max_blast_score (length d_and_udotv) sl) (\<lambda>M_b.
           Inr (fl_sqrt (fl_mul (py_max0 (fl_div S_a M_a)) (py_max0 (fl_div S_b M_b))))))))
       else if normalize_flag then
         bind_err (max_blast_score (length d_and_udotv) sl) (\<lambda>M. Inr (fl_div S_a M))
       else Inr S_a))"

text \<open>
  Example data: a neuron of two nodes one unit apart, a neuron of three nodes on a line,
  and a score table with two distance bins (below 1: score 1, from 1 on: score -1) and
  one alignment bin.
\<close>

definition neuron_a :: neuron where
  "neuron_a = \<lparr>nid = 1, nname = ''a'', minimal_paths = [[0, 1]],
                nodeloc = [(0, (0, 0, 0)), (1, (1, 0, 0))],
                strahler_number = [(0, 1), (1, 1)], soma_location = (0, 0, 0)\<rparr>"

definition neuron_b :: neuron where
  "neuron_b = \<lparr>nid = 2, nname = ''b'', minimal_paths = [[0, 1, 2]],
                nodeloc = [(0, (0, 0, 0)), (1, (1, 0, 0)), (2, (2, 0, 0))],
                strahler_number = [(0, 1), (1, 1), (2, 1)], soma_location = (0, 0, 0)\<rparr>"

definition score_lookup_example :: score_lookup where
  "score_lookup_example = \<lparr>mat = [[Fin 1], [Fin (- 1)]], d_range = [Fin 1], udotv_range = []\<rparr>"

text \<open>An orientation estimate for the examples: the direction of the x axis at every point.\<close>

definition orient_x :: orient_fun where
  "orient_x xyzi query_nn n = (Fin 1, Fin 0, Fin 0)"

text \<open>
  For the statements about finite dotprops: the dotprop with given finite positions, and
  the least distance from a point to the positions of a dotprop.
\<close>

definition dp_of :: "(point \<times> fvec) list \<Rightarrow> dotprop" where
  "dp_of rows = map (\<lambda>r. (fvec_of (fst r), snd r)) rows"

definition nn_dist :: "point \<Rightarrow> (point \<times> fvec) list \<Rightarrow> real" where
  "nn_dist p tgt = Min ((\<lambda>t. dist3 p (fst t)) ` set tgt)"

section \<open>Batch NBLAST and the symmetric similarity matrix\<close>

text \<open>\<open>str(n)\<close> for an integer, and \<open>name_number\<close>, the label of a neuron.\<close>

definition digit_char :: "nat \<Rightarrow> char" where
  "digit_char n = char_of (48 + n)"

function str_nat :: "nat \<Rightarrow> string" where
  "str_nat n = (if n < 10 then [digit_char n] else str_nat (n div 10) @ [digit_char (n mod 10)])"
  by pat_completeness auto
termination
  by (relation "measure (\<lambda>n. n)") auto

definition str_int :: "int \<Rightarrow> string" where
  "str_int i = (if i < 0 then CHR ''-'' # str_nat (nat (- i)) else str_nat (nat i))"

text \<open>
  \<^verbatim>\<open>
  def name_number( nrn ):
      return nrn.name + ' (' + str(nrn.id) + ')'
  \<close>
\<close>

definition name_number :: "neuron \<Rightarrow> string" where
  "name_number nrn = nname nrn @ '' ('' @ str_int (nid nrn) @ '')''"

text \<open>
  The neuron sets handed to the batch functions: a list of neurons or, with
  \<open>as_dotprop\<close>, a dictionary from labels to dotprops (its keys are distinct and are
  listed in iteration order).
\<close>

datatype nrn_set = Neurons "neuron list" | Dotprops "(string \<times> dotprop) list"

text \<open>
  The first part of \<open>nblast_neurons\<close>, for one of the two sets: the dotprop of every
  member and the label it is reported under. Without \<open>as_dotprop\<close> the dotprops are
  stored in a dictionary keyed by \<open>nrn.id\<close> (a later neuron with the same id replaces an
  earlier one) and read back by id.
\<close>

definition dotprop_dict ::
  "orient_fun \<Rightarrow> nrn_set \<Rightarrow> real \<Rightarrow> nat \<Rightarrow> int option \<Rightarrow> bool
     \<Rightarrow> error + (string \<times> dotprop) list" where
  "dotprop_dict orient nrns resample_distance num_nn min_strahler as_dotprop =
     (if as_dotprop then (case nrns of Dotprops d \<Rightarrow> Inr d | Neurons _ \<Rightarrow> Inl TypeError)
      else (case nrns of
              Dotprops _ \<Rightarrow> Inl AttributeError
            | Neurons l \<Rightarrow>
                bind_err
                  (mapM_err (\<lambda>nrn. neuron_to_dotprop orient nrn resample_distance num_nn min_strahler) l)
                  (\<lambda>dps. mapM_err
                            (\<lambda>nrn. bind_err (dict_get (rev (zip (map nid l) dps)) (nid nrn))
                                      (\<lambda>dp. Inr (name_number nrn, dp)))
                            l)))"

text \<open>
  \<^verbatim>\<open>
  def nblast_neurons(score_lookup, nrns_q, nrns_t=None, resample_distance=1000, num_nn=5,
                     min_strahler=None, normalize=False, max_proximity=None,
                     as_dotprop=False, processes=4 ):
      ...
      for nrn_q in nrns_q:
          ...
          for nrn_t in nrns_t:
              ...
              queries.append(q_name)
              targets.append(t_name)
              args.append((nrns_q_dotprop[...], nrns_t_dotprop[...], score_lookup,
                           resample_distance, num_nn, normalize, max_proximity) )
      similarities = pool.map( _nblast_neuron_pair_for_mp, args  )
      pool.close()
      df = pd.DataFrame({'Queries':queries, 'Targets':targets, 'S':similarities})...
      return df
  \<close>
  The worker pool is modelled by a map: the pair computations are independent. The
  result is the table as a list of rows \<open>(Queries, Targets, S)\<close>.
\<close>

type_synonym sframe = "(string \<times> string \<times> fl) list"

definition nblast_neurons ::
  "orient_fun \<Rightarrow> score_lookup \<Rightarrow> nrn_set \<Rightarrow> nrn_set option \<Rightarrow> real \<Rightarrow> nat \<Rightarrow> int option
     \<Rightarrow> bool \<Rightarrow> fl option \<Rightarrow> bool \<Rightarrow> error + sframe" where
  "nblast_neurons orient sl nrns_q nrns_t resample_distance num_nn min_strahler normalize_flag
       max_proximity as_dotprop =
     bind_err (dotprop_dict orient nrns_q resample_distance num_nn min_strahler as_dotprop)
       (\<lambda>qs.
     bind_err
       (case nrns_t of
          None \<Rightarrow> Inr qs
        | Some t \<Rightarrow> dotprop_dict orient t resample_distance num_nn min_strahler as_dotprop)
       (\<lambda>ts.
     mapM_err
       (\<lambda>qt. bind_err
                (nblast_neuron_pair_for_mp orient
                   (snd (fst qt), snd (snd qt), sl, resample_distance, num_nn, normalize_flag,
                    max_proximity))
                (\<lambda>S. Inr (fst (fst qt), fst (snd qt), S)))
       (List.product qs ts)))"

text \<open>
  A table of scores with labelled rows and columns (\<open>Queries\<close> by \<open>Targets\<close>), as
  \<open>DataFrame.pivot\<close> builds it: the labels of each axis are sorted, a cell that no row
  of the long table fills is \<open>nan\<close>, and two rows for the same cell raise \<open>ValueError\<close>.
\<close>

record smatrix =
  m_index :: "string list"
  m_columns :: "string list"
  m_vals :: "fl list list"

definition pivot :: "(string \<times> string \<times> fl) list \<Rightarrow> error + smatrix" where
  "pivot rows =
     (let keys = map (\<lambda>r. (fst r, fst (snd r))) rows;
          idx = sort (remdups (map fst keys));
          cols = sort (remdups (map snd keys))
      in if \<not> distinct keys then Inl ValueError
         else Inr \<lparr>m_index = idx, m_columns = cols,
                   m_vals = map (\<lambda>i. map (\<lambda>c. case map_of (zip keys (map (\<lambda>r. snd (snd r)) rows)) (i, c) of
                                                 None \<Rightarrow> NaN | Some v \<Rightarrow> v) cols) idx\<rparr>)"

text \<open>The position of a label on an axis, and the cell of a row and column label.\<close>

fun index_of :: "'a \<Rightarrow> 'a list \<Rightarrow> nat option" where
  "index_of x [] = None"
| "index_of x (y # ys) = (if x = y then Some 0 else map_option Suc (index_of x ys))"

definition m_cell :: "smatrix \<Rightarrow> string \<Rightarrow> string \<Rightarrow> fl option" where
  "m_cell m r c =
     (case index_of r (m_index m) of
        None \<Rightarrow> None
      | Some i \<Rightarrow> (case index_of c (m_columns m) of
                     None \<Rightarrow> None
                   | Some j \<Rightarrow> Some (m_vals m ! i ! j)))"

definition m_map :: "(fl \<Rightarrow> fl) \<Rightarrow> smatrix \<Rightarrow> smatrix" where
  "m_map f m = m\<lparr>m_vals := map (map f) (m_vals m)\<rparr>"

text \<open>\<open>M[M<0] = 0\<close>, \<open>.apply(np.sqrt)\<close> and \<open>.fillna(0)\<close>, cell by cell.\<close>

definition clamp_neg :: "fl \<Rightarrow> fl" where
  "clamp_neg v = (if fl_less v (Fin 0) then Fin 0 else v)"

definition fillna0 :: "fl \<Rightarrow> fl" where
  "fillna0 v = (if isnan v then Fin 0 else v)"

text \<open>
  \<open>A.multiply(B)\<close> aligns the two tables on their labels: an axis whose labels are equal
  in both is kept, otherwise the result has the sorted union of the labels, and a cell
  missing from one of the tables is \<open>nan\<close>.
\<close>

definition align_labels :: "string list \<Rightarrow> string list \<Rightarrow> string list" where
  "align_labels a b = (if a = b then a else sort (remdups (a @ b)))"

definition m_multiply :: "smatrix \<Rightarrow> smatrix \<Rightarrow> smatrix" where
  "m_multiply a b =
     (let idx = align_labels (m_index a) (m_index b);
          cols = align_labels (m_columns a) (m_columns b);
          get = (\<lambda>m r c. case m_cell m r c of None \<Rightarrow> NaN | Some v \<Rightarrow> v)
      in \<lparr>m_index = idx, m_columns = cols,
          m_vals = map (\<lambda>r. map (\<lambda>c. fl_mul (get a r c) (get b r c)) cols) idx\<rparr>)"

text \<open>
  \<^verbatim>\<open>
  def exact_nblast(score_lookup, nrns_q, nrns_t, resample_distance=1000, num_nn=5,
                   max_proximity=None, min_strahler=None, min_length=None,
                   as_dotprop=False, processes=4 ):
      if min_length is not None:
          nrns_q = cat.filter_neurons_by_length( nrns_q, min_length )
          nrns_t = cat.filter_neurons_by_length( nrns_t, min_length )
      Sqt = nblast_neurons( score_lookup, nrns_q, nrns_t, resample_distance=resample_distance,
                            num_nn=num_nn, min_strahler=min_strahler, max_proximity=None,
                            processes=processes, normalize=True, as_dotprop=as_dotprop
                          ).pivot( index='Queries', columns='Targets', values='S')
      Stq = nblast_neurons( score_lookup, nrns_t, nrns_q, resample_distance=resample_distance,
                            num_nn=num_nn, min_strahler=min_strahler,
                            processes=processes, normalize=True, as_dotprop=as_dotprop
                          ).pivot( index='Targets', columns='Queries', values='S' )
      Stq[Stq<0]=0
      Sqt[Sqt<0]=0
      return Sqt.multiply( Stq ).apply( np.sqrt ).fillna( 0 )
  \<close>
  \<open>cat.filter_neurons_by_length\<close> is outside this file; it is the parameter
  \<open>filter_neurons_by_length\<close>.
\<close>

definition exact_nblast ::
  "orient_fun \<Rightarrow> (nrn_set \<Rightarrow> real \<Rightarrow> nrn_set) \<Rightarrow> score_lookup \<Rightarrow> nrn_set \<Rightarrow> nrn_set \<Rightarrow> real
     \<Rightarrow> nat \<Rightarrow> fl option \<Rightarrow> int option \<Rightarrow> real option \<Rightarrow> bool \<Rightarrow> error + smatrix" where
  "exact_nblast orient filter_neurons_by_length sl nrns_q nrns_t resample_distance num_nn
       max_proximity min_strahler min_length as_dotprop =
     (let q = (case min_length of None \<Rightarrow> nrns_q | Some ml \<Rightarrow> filter_neurons_by_length nrns_q ml);
          t = (case min_length of None \<Rightarrow> nrns_t | Some ml \<Rightarrow> filter_neurons_by_length nrns_t ml)
      in bind_err
           (nblast_neurons orient sl q (Some t) resample_distance num_nn min_strahler True None
              as_dotprop) (\<lambda>df_qt.
         bind_err (pivot df_qt) (\<lambda>Sqt.
         bind_err
           (nblast_neurons orient sl t (Some q) resample_distance num_nn min_strahler True None
              as_dotprop) (\<lambda>df_tq.
         bind_err (pivot (map (\<lambda>r. (fst (snd r), fst r, snd (snd r))) df_tq)) (\<lambda>Stq.
           Inr (m_map fillna0
                  (m_map fl_sqrt (m_multiply (m_map clamp_neg Sqt) (m_map clamp_neg Stq)))))))))"

text \<open>
  Example data: two dotprops of two points each, with orthogonal orientations, and a
  score table with two distance bins and two alignment bins.
\<close>

definition dotprops_example :: nrn_set where
  "dotprops_example = Dotprops
     [(''a (1)'', dp_of [((0, 0, 0), (Fin 1, Fin 0, Fin 0)), ((1, 0, 0), (Fin 1, Fin 0, Fin 0))]),
      (''b (2)'', dp_of [((0, 0, 0), (Fin 0, Fin 1, Fin 0)), ((2, 0, 0), (Fin 0, Fin 1, Fin 0))])]"

definition score_lookup_2x2 :: score_lookup where
  "score_lookup_2x2 =
     \<lparr>mat = [[Fin 1, Fin 2], [Fin (- 2), Fin (- 1)]], d_range = [Fin 1], udotv_range = [Fin (1 / 2)]\<rparr>"

section \<open>Fusion of the evidence tables\<close>





section \<open>Bipartite matching of a score matrix\<close>

text \<open>
  \<^verbatim>\<open>
  def name_number_to_id( name_num ):
      id_match = re.search('\((\d*)\)$',name_num)
      return int(id_match.groups()[0])
  \<close>
  The pattern matches a parenthesised run of digits at the end of the string (or before
  one final newline). Without a match \<open>id_match\<close> is \<open>None\<close> and \<open>.groups()\<close> raises
  \<open>AttributeError\<close>; \<open>int('')\<close> raises \<open>ValueError\<close>. Digits are the ASCII digits.
\<close>

definition is_digit :: "char \<Rightarrow> bool" where
  "is_digit c = ((48::nat) \<le> of_char c \<and> (of_char c :: nat) \<le> 57)"

definition int_of_digits :: "string \<Rightarrow> int" where
  "int_of_digits ds = foldl (\<lambda>acc c. 10 * acc + (int (of_char c) - 48)) 0 ds"

definition re_search_id :: "string \<Rightarrow> string option" where
  "re_search_id s =
     (let r = rev s;
          r' = (case r of c # rest \<Rightarrow> if c = CHR 0x0A then rest else r | [] \<Rightarrow> r)
      in case r' of
           c # rest \<Rightarrow>
             (if c = CHR '')'' then
                (case dropWhile is_digit rest of
                   c2 # _ \<Rightarrow> if c2 = CHR ''('' then Some (rev (takeWhile is_digit rest)) else None
                 | [] \<Rightarrow> None)
              else None)
         | [] \<Rightarrow> None)"

definition name_number_to_id :: "string \<Rightarrow> error + int" where
  "name_number_to_id name_num =
     (case re_search_id name_num of
        None \<Rightarrow> Inl AttributeError
      | Some ds \<Rightarrow> if ds = [] then Inl ValueError else Inr (int_of_digits ds))"

text \<open>
  A \<open>networkx.Graph\<close>: the nodes in insertion order, each with its \<open>bipartite\<close>
  attribute, and the undirected edges with their weights. Adding a node that is already
  there overwrites its attribute; adding an edge that is already there (in either
  direction) overwrites its weight.
\<close>

record graph =
  g_nodes :: "(string \<times> nat) list"
  g_edges :: "((string \<times> string) \<times> fl) list"

definition add_node :: "graph \<Rightarrow> string \<Rightarrow> nat \<Rightarrow> graph" where
  "add_node g v attr =
     (if v \<in> fst ` set (g_nodes g)
      then g\<lparr>g_nodes := map (\<lambda>n. if fst n = v then (v, attr) else n) (g_nodes g)\<rparr>
      else g\<lparr>g_nodes := g_nodes g @ [(v, attr)]\<rparr>)"

definition add_nodes_from :: "graph \<Rightarrow> string list \<Rightarrow> nat \<Rightarrow> graph" where
  "add_nodes_from g vs attr = foldl (\<lambda>g v. add_node g v attr) g vs"

definition same_edge :: "string \<times> string \<Rightarrow> string \<Rightarrow> string \<Rightarrow> bool" where
  "same_edge e u v = (e = (u, v) \<or> e = (v, u))"

definition add_edge :: "graph \<Rightarrow> string \<Rightarrow> string \<Rightarrow> fl \<Rightarrow> graph" where
  "add_edge g u v w =
     (if list_ex (\<lambda>e. same_edge (fst e) u v) (g_edges g)
      then g\<lparr>g_edges := map (\<lambda>e. if same_edge (fst e) u v then (fst e, w) else e) (g_edges g)\<rparr>
      else g\<lparr>g_edges := g_edges g @ [((u, v), w)]\<rparr>)"

text \<open>
  \<^verbatim>\<open>
  def similarity_matrix_to_adjacency( Sb, min_similarity=0.4 ):
      B = nx.Graph()
      nodes_from = list(Sb.index.values)
      nodes_to = list(Sb.columns.values)
      B.add_nodes_from( nodes_from, bipartite=0 )
      B.add_nodes_from( nodes_to, bipartite=1 )
      Sb_edgelist = Sb.unstack().swaplevel('Targets','Queries')
      for node1 in nodes_from:
          for node2 in nodes_to:
              if Sb_edgelist[node1][node2] > min_similarity:
                  B.add_edge(node1,node2,weight = Sb_edgelist[node1][node2] )
      remove_isolates = list( nx.isolates(B) )
      B.remove_nodes_from( remove_isolates )
      return B
  \<close>
  \<open>Sb_edgelist[node1][node2]\<close> is the cell of row \<open>node1\<close> and column \<open>node2\<close>. The
  labels of each axis of \<open>Sb\<close> are distinct, as \<open>pivot\<close> builds them. A node is isolated
  when no edge touches it.
\<close>

fun add_edges_loop ::
  "smatrix \<Rightarrow> fl \<Rightarrow> graph \<Rightarrow> (string \<times> string) list \<Rightarrow> error + graph" where
  "add_edges_loop Sb min_similarity g [] = Inr g"
| "add_edges_loop Sb min_similarity g (p # ps) =
     (case m_cell Sb (fst p) (snd p) of
        None \<Rightarrow> Inl KeyError
      | Some c \<Rightarrow>
          add_edges_loop Sb min_similarity
            (if fl_less min_similarity c then add_edge g (fst p) (snd p) c else g) ps)"

definition touches :: "string \<Rightarrow> (string \<times> string) \<times> fl \<Rightarrow> bool" where
  "touches v e = (fst (fst e) = v \<or> snd (fst e) = v)"

definition remove_isolates :: "graph \<Rightarrow> graph" where
  "remove_isolates g =
     g\<lparr>g_nodes := filter (\<lambda>n. list_ex (touches (fst n)) (g_edges g)) (g_nodes g)\<rparr>"

definition similarity_matrix_to_adjacency :: "smatrix \<Rightarrow> fl \<Rightarrow> error + graph" where
  "similarity_matrix_to_adjacency Sb min_similarity =
     (let nodes_from = m_index Sb;
          nodes_to = m_columns Sb;
          B0 = add_nodes_from \<lparr>g_nodes = [], g_edges = []\<rparr> nodes_from 0;
          B1 = add_nodes_from B0 nodes_to 1
      in bind_err (add_edges_loop Sb min_similarity B1 (List.product nodes_from nodes_to))
           (\<lambda>B. Inr (remove_isolates B)))"

text \<open>
  \<open>nx.algorithms.matching.max_weight_matching(B)\<close> is library code. It is modelled by
  its contract: a set of edges of \<open>B\<close>, no two sharing a node, of the greatest total
  weight; loops from a node to itself are ignored. The model enumerates the sets of
  edges. Two things the library leaves open are made explicit: of several matchings
  of the same greatest weight the model returns the first it meets, and the order of the
  two nodes in a returned pair is decided by the parameter \<open>smaller_first\<close>, which is
  asked for every pair whether the smaller label comes first.
\<close>

type_synonym wedge = "(string \<times> string) \<times> fl"

definition is_matching :: "wedge list \<Rightarrow> bool" where
  "is_matching es = distinct (concat (map (\<lambda>e. [fst (fst e), snd (fst e)]) es))"

definition weight_sum :: "wedge list \<Rightarrow> fl" where
  "weight_sum es = foldl fl_add (Fin 0) (map snd es)"

fun pick_best :: "wedge list \<Rightarrow> wedge list list \<Rightarrow> wedge list" where
  "pick_best best [] = best"
| "pick_best best (c # cs) =
     pick_best (if fl_less (weight_sum best) (weight_sum c) then c else best) cs"

definition orient_pair :: "(string \<Rightarrow> string \<Rightarrow> bool) \<Rightarrow> string \<times> string \<Rightarrow> string \<times> string" where
  "orient_pair smaller_first e =
     (let lo = min (fst e) (snd e); hi = max (fst e) (snd e)
      in if smaller_first lo hi then (lo, hi) else (hi, lo))"

definition max_weight_matching ::
  "(string \<Rightarrow> string \<Rightarrow> bool) \<Rightarrow> graph \<Rightarrow> (string \<times> string) list" where
  "max_weight_matching smaller_first g =
     (let es = filter (\<lambda>e. fst (fst e) \<noteq> snd (fst e)) (g_edges g);
          best = pick_best [] (filter is_matching (subseqs es))
      in map (\<lambda>e. orient_pair smaller_first (fst e)) best)"

text \<open>
  The forced matches, lines 424 to 427:
  \<^verbatim>\<open>
  tempSb = copy.deepcopy(Sb)
  if enforce_match is not None:
      for force_match in enforce_match:
          tempSb[force_match[1]][force_match[0]] = enforce_match_val
  \<close>
  \<open>tempSb[t]\<close> is the column \<open>t\<close> (\<open>KeyError\<close> when there is none) and \<open>[q] = v\<close> sets
  its entry of row \<open>q\<close>. For a row label that the table does not have the assignment
  is modelled as leaving the table as it is.
\<close>

definition set_cell :: "smatrix \<Rightarrow> string \<Rightarrow> string \<Rightarrow> fl \<Rightarrow> error + smatrix" where
  "set_cell m q t v =
     (case index_of t (m_columns m) of
        None \<Rightarrow> Inl KeyError
      | Some j \<Rightarrow>
          (case index_of q (m_index m) of
             None \<Rightarrow> Inr m
           | Some i \<Rightarrow> Inr (m\<lparr>m_vals := (m_vals m)[i := (m_vals m ! i)[j := v]]\<rparr>)))"

fun enforce_loop :: "smatrix \<Rightarrow> (string \<times> string) list \<Rightarrow> fl \<Rightarrow> error + smatrix" where
  "enforce_loop m [] v = Inr m"
| "enforce_loop m (force_match # rest) v =
     bind_err (set_cell m (fst force_match) (snd force_match) v) (\<lambda>m'. enforce_loop m' rest v)"

text \<open>A row of the table that \<open>max_match_similarity\<close> returns.\<close>

record match_row =
  r_S :: fl
  r_Query_name :: string
  r_Query_id :: int
  r_Target_name :: string
  r_Target_id :: int

text \<open>
  \<open>sort_values(by='S', ascending=False)\<close>: descending scores, \<open>nan\<close> last. Rows with
  equal scores keep their order in the model.
\<close>

definition desc_before :: "match_row \<Rightarrow> match_row \<Rightarrow> bool" where
  "desc_before x y = ((isnan (r_S y) \<and> \<not> isnan (r_S x)) \<or> fl_less (r_S y) (r_S x))"

fun insert_desc :: "match_row \<Rightarrow> match_row list \<Rightarrow> match_row list" where
  "insert_desc x [] = [x]"
| "insert_desc x (y # ys) = (if desc_before x y then x # y # ys else y # insert_desc x ys)"

definition sort_desc :: "match_row list \<Rightarrow> match_row list" where
  "sort_desc rows = foldl (\<lambda>acc x. insert_desc x acc) [] rows"

text \<open>
  \<^verbatim>\<open>
  def max_match_similarity(Sb, min_similarity=0.4, enforce_match=None, enforce_match_val=1 ):
      tempSb = copy.deepcopy(Sb)
      ...
      B = similarity_matrix_to_adjacency( tempSb, min_similarity=min_similarity)
      Qset = [n for n,d in B.nodes(data=True) if d['bipartite']==0]
      matching = nx.algorithms.matching.max_weight_matching( B )
      ...
      for match in matching:
          if match[0] in Qset:
              name_q.append(match[0])
              name_t.append(match[1])
              match_val.append(Sb[match[1]][match[0]])
              match_ids_q.append( name_number_to_id(match[0]) )
              match_ids_t.append( name_number_to_id(match[1]) )
          else:
              name_q.append(match[1])
              name_t.append(match[0])
              match_val.append(Sb[match[0]][match[1]])
              match_ids_q.append( name_number_to_id(match[1]) )
              match_ids_t.append( name_number_to_id(match[0]) )
      match_df = pd.DataFrame({...}).sort_values(by='S',ascending=False).reset_index(drop=True)
      return match_df.reindex(['S', 'Query_name', 'Query_id', 'Target_name', 'Target_id'], axis = 1)
  \<close>
  \<open>Sb[t][q]\<close> is the cell of column \<open>t\<close> and row \<open>q\<close> of the matrix as it was given
  (\<open>KeyError\<close> when a label is missing).
\<close>

definition match_to_row :: "smatrix \<Rightarrow> string list \<Rightarrow> string \<times> string \<Rightarrow> error + match_row" where
  "match_to_row Sb Qset match =
     (let q = (if fst match \<in> set Qset then fst match else snd match);
          t = (if fst match \<in> set Qset then snd match else fst match)
      in case m_cell Sb q t of
           None \<Rightarrow> Inl KeyError
         | Some v \<Rightarrow>
             bind_err (name_number_to_id q) (\<lambda>idq.
             bind_err (name_number_to_id t) (\<lambda>idt.
               Inr \<lparr>r_S = v, r_Query_name = q, r_Query_id = idq,
                    r_Target_name = t, r_Target_id = idt\<rparr>)))"

definition max_match_similarity ::
  "(string \<Rightarrow> string \<Rightarrow> bool) \<Rightarrow> smatrix \<Rightarrow> fl \<Rightarrow> (string \<times> string) list option \<Rightarrow> fl
     \<Rightarrow> error + match_row list" where
  "max_match_similarity smaller_first Sb min_similarity enforce_match enforce_match_val =
     bind_err
       (case enforce_match of
          None \<Rightarrow> Inr Sb
        | Some forced \<Rightarrow> enforce_loop Sb forced enforce_match_val) (\<lambda>tempSb.
     bind_err (similarity_matrix_to_adjacency tempSb min_similarity) (\<lambda>B.
       (let Qset = map fst (filter (\<lambda>n. snd n = 0) (g_nodes B));
            matching = max_weight_matching smaller_first B
        in bind_err (mapM_err (match_to_row Sb Qset) matching) (\<lambda>rows. Inr (sort_desc rows)))))"


definition Sb_self_ab :: smatrix where
  "Sb_self_ab = \<lparr>m_index = [''a (1)'', ''b (2)''], m_columns = [''a (1)'', ''b (2)''],
                 m_vals = [[Fin 0, Fin (9 / 10)], [Fin (1 / 10), Fin 0]]\<rparr>"

definition Sb_self_ba :: smatrix where
  "Sb_self_ba = \<lparr>m_index = [''a (1)'', ''b (2)''], m_columns = [''a (1)'', ''b (2)''],
                 m_vals = [[Fin 0, Fin (1 / 10)], [Fin (9 / 10), Fin 0]]\<rparr>"



section \<open>Results for the connectivity table lookup\<close>

lemma np_axis_index_out_of_range:
  "n \<le> i \<Longrightarrow> 0 \<le> n \<Longrightarrow> np_axis_index n i = Inl IndexError"
  by (simp add: np_axis_index_def)

lemma shape0_nonneg: "0 \<le> shape0 a"
  by (simp add: shape0_def)

lemma match_prob_conn_log_ratio_in_range:
  assumes "w1 \<le> shape0 a - 1" and "w2 \<le> shape1 a - 1"
  shows "match_prob_conn_log_ratio w1 w2 a = conn_lookup a w1 w2"
  using assms by (simp add: match_prob_conn_log_ratio_def)

text \<open>
  Claim C5. The claim: when a weight exceeds the table's dimensions, both indices are
  shifted down by the overflow amount, the difference is kept, and the table is read at
  in-range positions. The code does not reach a table entry on any such input: with
  \<open>w1 \<ge> shape[0]\<close> or \<open>w2 \<ge> shape[1]\<close> the call raises, either \<open>AxisError\<close> from
  \<open>np.max(shift1, shift2)\<close> (the second argument is taken as an axis), or \<open>IndexError\<close>
  because \<open>shift1 = w1 - shape[0] - 1\<close> leaves the row index at \<open>shape[0] + 1\<close>.
\<close>

theorem match_prob_conn_log_ratio_overflow_raises:
  assumes "0 \<le> w1" and "0 \<le> w2"
    and "w1 > shape0 a - 1 \<or> w2 > shape1 a - 1"
  shows "match_prob_conn_log_ratio w1 w2 a = Inl AxisError
       \<or> match_prob_conn_log_ratio w1 w2 a = Inl IndexError"
proof (cases "w2 - shape1 a - 1 = 0 \<or> w2 - shape1 a - 1 = - 1")
  case False
  then have "np_max_axis (w1 - shape0 a - 1) (w2 - shape1 a - 1) = Inl AxisError"
    by (simp add: np_max_axis_def)
  with assms(3) show ?thesis
    by (simp add: match_prob_conn_log_ratio_def Let_def)
next
  case True
  then have m: "np_max_axis (w1 - shape0 a - 1) (w2 - shape1 a - 1) = Inr (w1 - shape0 a - 1)"
    by (auto simp: np_max_axis_def)
  have row: "w1 - (w1 - shape0 a - 1) = shape0 a + 1"
    by simp
  have pos: "shape0 a + 1 > 0"
    using shape0_nonneg [of a] by simp
  have "np_axis_index (shape0 a) (shape0 a + 1) = Inl IndexError"
    by (rule np_axis_index_out_of_range) (simp_all add: shape0_nonneg)
  then have "conn_lookup a (shape0 a + 1) (w2 - (w1 - shape0 a - 1)) = Inl IndexError"
    using pos by (simp add: conn_lookup_def np_getitem2_def)
  with assms(3) m row show ?thesis
    by (simp add: match_prob_conn_log_ratio_def Let_def)
qed

theorem match_prob_conn_log_ratio_overflow_raises_witness:
  "(0::int) \<le> 3 \<and> (3 > shape0 [[Fin 0, Fin 1, Fin 2], [Fin 1, Fin 0, Fin 1], [Fin 2, Fin 1, Fin 0]] - 1)
   \<and> match_prob_conn_log_ratio 3 3 [[Fin 0, Fin 1, Fin 2], [Fin 1, Fin 0, Fin 1], [Fin 2, Fin 1, Fin 0]]
       = Inl IndexError"
  using match_prob_conn_log_ratio_overflow_raises
    [of 3 3 "[[Fin 0, Fin 1, Fin 2], [Fin 1, Fin 0, Fin 1], [Fin 2, Fin 1, Fin 0]]"]
  by (simp add: match_prob_conn_log_ratio_def shape0_def shape1_def np_max_axis_def
      conn_lookup_def np_getitem2_def np_axis_index_def)

section \<open>Results for resampling\<close>










section \<open>Results for the morphology log-likelihood ratio\<close>

lemma gamma_ratio_example_nan:
  "gamma_ratio gamma_pdf (Fin 10) (2, 100, 1) (Suc 0, 20, 100) (Fin 0, Fin 1) = NaN"
  by (simp add: gamma_ratio_def gamma_pdf_def Let_def fl_sub_def signed_inf_def)

lemma gamma_ratio_example_ninf:
  "gamma_ratio gamma_pdf (Fin 50) (2, 100, 1) (Suc 0, 20, 100) (Fin 0, Fin 1) = NInf"
  by (simp add: gamma_ratio_def gamma_pdf_def Let_def fl_sub_def)

lemma logistic_ratio_example:
  "logistic_ratio (Fin 0) (Fin (1 / 2), Fin 1, Fin 0) = Fin (log 2 (1 / 4) - log 2 (3 / 4))"
  by (simp add: logistic_ratio_def Let_def fl_sub_def)

text \<open>
  Claim C9, as amended. For pair \<open>i\<close>, the returned total is the logistic score channel
  plus the distance channel, where a distance-channel value that is \<open>nan\<close> is replaced by
  1.0 and every other value, the infinite ones included, is kept.
\<close>

theorem match_prob_morpho_log_ratio_nan_only:
  assumes "length S = length d" and "i < length d"
  shows "(let g = gamma_ratio pdf (d ! i) (dist_match ms) (dist_nonmatch ms) (exp_cutoff ms);
              s = logistic_ratio (S ! i) (shape ms);
              r = match_prob_morpho_log_ratio pdf S d ms
          in length r = length d
           \<and> (isnan g \<longrightarrow> r ! i = fl_add s (Fin 1))
           \<and> (\<not> isnan g \<longrightarrow> r ! i = fl_add s g))"
  using assms by (simp add: match_prob_morpho_log_ratio_def Let_def nan_to_one_def)

theorem match_prob_morpho_log_ratio_nan_only_witness:
  "length [Fin 0, Fin 0] = length [Fin 10, Fin 50] \<and> (1::nat) < length [Fin 10, Fin 50]
   \<and> isnan (gamma_ratio gamma_pdf ([Fin 10, Fin 50] ! 0) (dist_match morpho_stats_example)
        (dist_nonmatch morpho_stats_example) (exp_cutoff morpho_stats_example))
   \<and> \<not> isnan (gamma_ratio gamma_pdf ([Fin 10, Fin 50] ! 1) (dist_match morpho_stats_example)
        (dist_nonmatch morpho_stats_example) (exp_cutoff morpho_stats_example))
   \<and> match_prob_morpho_log_ratio gamma_pdf [Fin 0, Fin 0] [Fin 10, Fin 50] morpho_stats_example ! 0
       = fl_add (logistic_ratio (Fin 0) (shape morpho_stats_example)) (Fin 1)
   \<and> match_prob_morpho_log_ratio gamma_pdf [Fin 0, Fin 0] [Fin 10, Fin 50] morpho_stats_example ! 1
       = fl_add (logistic_ratio (Fin 0) (shape morpho_stats_example)) NInf"
  using
    match_prob_morpho_log_ratio_nan_only
      [of "[Fin 0, Fin 0]" "[Fin 10, Fin 50]" 0 gamma_pdf morpho_stats_example]
    match_prob_morpho_log_ratio_nan_only
      [of "[Fin 0, Fin 0]" "[Fin 10, Fin 50]" 1 gamma_pdf morpho_stats_example]
    gamma_ratio_example_nan gamma_ratio_example_ninf
  by (simp add: morpho_stats_example_def Let_def)

text \<open>
  Claim C9, as stated, says that a distance-channel value that is not finite is replaced
  by 1.0 and does not reach the total. At soma distance 50 the match density is zero and
  the non-match density is not: the distance channel is \<open>-inf\<close>, it is not replaced, and
  the total of the pair is \<open>-inf\<close>.
\<close>

theorem match_prob_morpho_log_ratio_inf_counterexample:
  "match_prob_morpho_log_ratio gamma_pdf [Fin 0] [Fin 50] morpho_stats_example = [NInf]"
  using gamma_ratio_example_ninf logistic_ratio_example
  by (simp add: match_prob_morpho_log_ratio_def morpho_stats_example_def nan_to_one_def)

section \<open>Results for degenerate dotprops\<close>

lemma nblast_neuron_pair_for_mp_degenerate:
  "length q \<le> 1 \<or> length t \<le> 1 \<Longrightarrow>
   nblast_neuron_pair_for_mp orient (q, t, sl, rd, num_nn, nz, mp) = Inr (Fin 0)"
  by (auto simp: nblast_neuron_pair_for_mp_def)

text \<open>
  Claim C8. When \<open>min_strahler\<close> exceeds the largest Strahler number of the neuron,
  \<open>neuron_to_dotprop\<close> returns the dotprop of one row with \<open>nan\<close> in all six columns;
  and the batch pair function returns the score 0, without raising, whenever one of
  the two dotprops has at most one row.
\<close>

theorem strahler_above_max_gives_nan_dotprop_scoring_zero:
  assumes "strahler_number nrn \<noteq> []"
    and "ms > Max (set (map snd (strahler_number nrn)))"
  shows "neuron_to_dotprop orient nrn resample_distance num_nn (Some ms) = Inr [nan_row]
       \<and> (length q \<le> 1 \<or> length t \<le> 1 \<longrightarrow>
            nblast_neuron_pair_for_mp orient (q, t, sl, rd, k, nz, mp) = Inr (Fin 0))"
  using assms nblast_neuron_pair_for_mp_degenerate [of q t orient sl rd k nz mp]
  by (simp add: neuron_to_dotprop_def Let_def)

theorem strahler_above_max_gives_nan_dotprop_scoring_zero_witness:
  "strahler_number neuron_a \<noteq> []
   \<and> (2::int) > Max (set (map snd (strahler_number neuron_a)))
   \<and> (length [nan_row] \<le> 1 \<or> length [nan_row, nan_row] \<le> 1)
   \<and> neuron_to_dotprop orient_x neuron_a 1000 5 (Some 2) = Inr [nan_row]
   \<and> nblast_neuron_pair_for_mp orient_x
        ([nan_row], [nan_row, nan_row], score_lookup_example, 1000, 5, True, None) = Inr (Fin 0)"
  using strahler_above_max_gives_nan_dotprop_scoring_zero
    [of neuron_a 2 orient_x 1000 5 "[nan_row]" "[nan_row, nan_row]" score_lookup_example 1000 5 True None]
  by (simp add: neuron_a_def)

section \<open>Results for the NBLAST components\<close>

lemma bind_err_Inr [simp]: "bind_err (Inr x) f = f x"
  by (simp add: bind_err_def)

lemma bind_err_Inl [simp]: "bind_err (Inl e) f = Inl e"
  by (simp add: bind_err_def)

lemma nearest_acc_fst:
  "fst (nearest_acc q ts i bd bi) = Min (insert bd (dist3 q ` set ts))"
proof (induction ts arbitrary: i bd bi)
  case Nil
  then show ?case by simp
next
  case (Cons t ts)
  have fin: "finite (dist3 q ` set ts)" by simp
  show ?case
  proof (cases "dist3 q t < bd")
    case True
    then have "Min (insert bd (insert (dist3 q t) (dist3 q ` set ts)))
             = Min (insert (dist3 q t) (dist3 q ` set ts))"
      using fin by (simp add: Min_insert2 min_def insert_commute)
    then show ?thesis using True Cons.IH by simp
  next
    case False
    then have "Min (insert bd (insert (dist3 q t) (dist3 q ` set ts)))
             = Min (insert bd (dist3 q ` set ts))"
      using fin by (cases "set ts = {}") (auto simp: min_def)
    then show ?thesis using False Cons.IH by simp
  qed
qed

lemma nearest_acc_snd:
  "nearest_acc q ts i bd bi = (d, j) \<Longrightarrow>
   (j = bi \<and> d = bd) \<or> (i \<le> j \<and> j < i + length ts \<and> dist3 q (ts ! (j - i)) = d)"
proof (induction ts arbitrary: i bd bi)
  case Nil
  then show ?case by simp
next
  case (Cons t ts)
  show ?case
  proof (cases "dist3 q t < bd")
    case True
    with Cons.prems have "nearest_acc q ts (i + 1) (dist3 q t) i = (d, j)" by simp
    from Cons.IH [OF this] show ?thesis by (auto simp: nth_Cons')
  next
    case False
    with Cons.prems have "nearest_acc q ts (i + 1) bd bi = (d, j)" by simp
    from Cons.IH [OF this] show ?thesis by (auto simp: nth_Cons')
  qed
qed

lemma nearest_props:
  assumes "ts \<noteq> []"
  shows "\<exists>j. nearest q ts = (Fin (Min (dist3 q ` set ts)), j) \<and> j < length ts
           \<and> dist3 q (ts ! j) = Min (dist3 q ` set ts)"
proof -
  from assms obtain t r where ts: "ts = t # r" by (cases ts) auto
  obtain d j where dj: "nearest_acc q r 1 (dist3 q t) 0 = (d, j)" by (cases "nearest_acc q r 1 (dist3 q t) 0")
  have d: "d = Min (dist3 q ` set ts)"
    using nearest_acc_fst [of q r 1 "dist3 q t" 0] dj ts by simp
  have "(j = 0 \<and> d = dist3 q t) \<or> (1 \<le> j \<and> j < 1 + length r \<and> dist3 q (r ! (j - 1)) = d)"
    using nearest_acc_snd [OF dj] .
  then have "j < length ts \<and> dist3 q (ts ! j) = d"
    using ts by (auto simp: nth_Cons')
  then show ?thesis using dj d ts by (simp add: nearest_def)
qed

lemma point_of_fvec_of [simp]: "point_of (fvec_of p) = Some p"
  by (simp add: fvec_of_def px_def py_def pz_def)

lemma those_map_Some: "those (map (\<lambda>x. Some (f x)) xs) = Some (map f xs)"
  by (induction xs) auto

lemma kd_query_dp_of:
  "kd_query (map fst (dp_of tgt)) (map fst (dp_of src))
     = Inr (map (\<lambda>s. nearest (fst s) (map fst tgt)) src)"
proof -
  have "those (map point_of (map fst (dp_of xs))) = Some (map fst xs)" for xs :: "(point \<times> fvec) list"
    using those_map_Some [of fst xs] by (simp add: dp_of_def comp_def)
  then show ?thesis by (simp add: kd_query_def comp_def)
qed

lemma py_min_loop_Fin:
  "py_min_loop (Fin b) (map Fin xs) = Fin (Min (insert b (set xs)))"
proof (induction xs arbitrary: b)
  case Nil
  then show ?case by simp
next
  case (Cons x xs)
  have "Min (insert b (insert x (set xs))) = Min (insert (if x < b then x else b) (set xs))"
    by (cases "set xs = {}") (auto simp: min_def)
  then show ?case using Cons.IH by simp
qed

lemma py_min_Fin: "xs \<noteq> [] \<Longrightarrow> py_min (map Fin xs) = Inr (Fin (Min (set xs)))"
  using py_min_loop_Fin by (cases xs) (auto simp: py_min_def)


lemma nearest_nn_dist:
  assumes "tgt \<noteq> []"
  shows "\<exists>j. nearest p (map fst tgt) = (Fin (nn_dist p tgt), j) \<and> j < length tgt
           \<and> dist3 p (fst (tgt ! j)) = nn_dist p tgt"
proof -
  have eq: "dist3 p ` set (map fst tgt) = (\<lambda>t. dist3 p (fst t)) ` set tgt"
    by (simp add: image_image)
  from assms have "map fst tgt \<noteq> []" by simp
  from nearest_props [OF this, of p] obtain j where
    "nearest p (map fst tgt) = (Fin (Min (dist3 p ` set (map fst tgt))), j)"
    "j < length (map fst tgt)"
    "dist3 p (map fst tgt ! j) = Min (dist3 p ` set (map fst tgt))"
    by blast
  then have "nearest p (map fst tgt) = (Fin (nn_dist p tgt), j) \<and> j < length tgt
           \<and> dist3 p (fst (tgt ! j)) = nn_dist p tgt"
    unfolding eq nn_dist_def by simp
  then show ?thesis by blast
qed

text \<open>
  Claim C7, as amended. For dotprops with finite positions and with \<open>max_proximity\<close>
  set, the recorded distance of every query point is its least distance to a target
  point, in both branches. If the least of these distances over all query points
  exceeds \<open>max_proximity\<close>, the alignment term of a point is the dot product (with its
  sign) of its orientation and the orientation of a nearest target point; otherwise the
  alignment term of every point is 1.0.
\<close>

theorem nblast_components_global_gate:
  assumes "src \<noteq> []" and "tgt \<noteq> []"
  shows "\<exists>rows.
      neuron_comparison_nblast_components orient (Dp (dp_of src)) (Dp (dp_of tgt))
        resample_distance num_nn True (Some max_proximity) = Inr rows
    \<and> length rows = length src
    \<and> (\<forall>i<length src.
         fst (rows ! i) = Fin (nn_dist (fst (src ! i)) tgt)
       \<and> (if fl_less max_proximity (Fin (Min ((\<lambda>s. nn_dist (fst s) tgt) ` set src)))
          then \<exists>j<length tgt. dist3 (fst (src ! i)) (fst (tgt ! j)) = nn_dist (fst (src ! i)) tgt
                 \<and> snd (rows ! i) = fdot (snd (src ! i)) (snd (tgt ! j))
          else snd (rows ! i) = Fin 1))"
proof -
  define ds where "ds = map (\<lambda>s. nearest (fst s) (map fst tgt)) src"
  define g where "g = Min ((\<lambda>s. nn_dist (fst s) tgt) ` set src)"
  have len: "length ds = length src" by (simp add: ds_def)
  have ds_i: "\<exists>j. ds ! i = (Fin (nn_dist (fst (src ! i)) tgt), j) \<and> j < length tgt
                \<and> dist3 (fst (src ! i)) (fst (tgt ! j)) = nn_dist (fst (src ! i)) tgt"
    if "i < length src" for i
    using that nearest_nn_dist [OF assms(2), of "fst (src ! i)"] by (simp add: ds_def)
  have fsts: "map fst ds = map Fin (map (\<lambda>s. nn_dist (fst s) tgt) src)"
  proof (rule nth_equalityI)
    show "length (map fst ds) = length (map Fin (map (\<lambda>s. nn_dist (fst s) tgt) src))"
      by (simp add: len)
  next
    fix i assume "i < length (map fst ds)"
    then have i: "i < length src" by (simp add: len)
    from ds_i [OF i] show "map fst ds ! i = map Fin (map (\<lambda>s. nn_dist (fst s) tgt) src) ! i"
      using i len by auto
  qed
  have pm: "py_min (map fst ds) = Inr (Fin g)"
    unfolding fsts g_def using assms(1) py_min_Fin [of "map (\<lambda>s. nn_dist (fst s) tgt) src"]
    by simp
  have noex: "\<not> list_ex (\<lambda>di. snd di \<ge> length (dp_of tgt)) ds"
  proof -
    have "snd di < length tgt" if "di \<in> set ds" for di
    proof -
      from that obtain i where i: "i < length ds" "ds ! i = di" by (auto simp: in_set_conv_nth)
      with ds_i [of i] len show ?thesis by auto
    qed
    then show ?thesis by (fastforce simp: list_ex_iff dp_of_def)
  qed
  let ?gate = "fl_less max_proximity (Fin g)"
  define rows where "rows =
    (if ?gate then map2 (\<lambda>s di. (fst di, fdot (snd s) (snd (dp_of tgt ! snd di)))) (dp_of src) ds
     else map (\<lambda>di. (fst di, Fin 1)) ds)"
  have res: "neuron_comparison_nblast_components orient (Dp (dp_of src)) (Dp (dp_of tgt))
        resample_distance num_nn True (Some max_proximity) = Inr rows"
    using pm noex
    by (simp add: neuron_comparison_nblast_components_def as_dp_def kd_query_dp_of
        ds_def [symmetric] rows_def)
  have lr: "length rows = length src"
    by (simp add: rows_def len dp_of_def)
  have main: "fst (rows ! i) = Fin (nn_dist (fst (src ! i)) tgt)
       \<and> (if ?gate
          then \<exists>j<length tgt. dist3 (fst (src ! i)) (fst (tgt ! j)) = nn_dist (fst (src ! i)) tgt
                 \<and> snd (rows ! i) = fdot (snd (src ! i)) (snd (tgt ! j))
          else snd (rows ! i) = Fin 1)"
    if i: "i < length src" for i
  proof -
    from ds_i [OF i] obtain j where j: "ds ! i = (Fin (nn_dist (fst (src ! i)) tgt), j)"
      "j < length tgt" "dist3 (fst (src ! i)) (fst (tgt ! j)) = nn_dist (fst (src ! i)) tgt"
      by blast
    show ?thesis
    proof (cases ?gate)
      case True
      then have "rows ! i = (Fin (nn_dist (fst (src ! i)) tgt), fdot (snd (src ! i)) (snd (tgt ! j)))"
        using i j len by (simp add: rows_def dp_of_def)
      then show ?thesis using True j by auto
    next
      case False
      then have "rows ! i = (Fin (nn_dist (fst (src ! i)) tgt), Fin 1)"
        using i j len by (simp add: rows_def)
      then show ?thesis using False by simp
    qed
  qed
  show ?thesis using res lr main unfolding g_def by blast
qed


theorem nblast_components_global_gate_witness:
  "[((0, 0, 0), (Fin 1, Fin 0, Fin 0))] \<noteq> ([] :: (point \<times> fvec) list)
   \<and> [((1, 0, 0), (Fin (- 1), Fin 0, Fin 0))] \<noteq> ([] :: (point \<times> fvec) list)
   \<and> neuron_comparison_nblast_components orient_x
        (Dp (dp_of [((0, 0, 0), (Fin 1, Fin 0, Fin 0))]))
        (Dp (dp_of [((1, 0, 0), (Fin (- 1), Fin 0, Fin 0))])) 1000 5 True (Some (Fin (1 / 2)))
       = Inr [(Fin 1, Fin (- 1))]
   \<and> neuron_comparison_nblast_components orient_x
        (Dp (dp_of [((0, 0, 0), (Fin 1, Fin 0, Fin 0))]))
        (Dp (dp_of [((1, 0, 0), (Fin (- 1), Fin 0, Fin 0))])) 1000 5 True (Some (Fin 2))
       = Inr [(Fin 1, Fin 1)]"
  using
    nblast_components_global_gate
      [of "[((0, 0, 0), (Fin 1, Fin 0, Fin 0))]" "[((1, 0, 0), (Fin (- 1), Fin 0, Fin 0))]"
          orient_x 1000 5 "Fin (1 / 2)"]
    nblast_components_global_gate
      [of "[((0, 0, 0), (Fin 1, Fin 0, Fin 0))]" "[((1, 0, 0), (Fin (- 1), Fin 0, Fin 0))]"
          orient_x 1000 5 "Fin 2"]
  by (auto simp: nn_dist_def dist3_def norm3_def psub_def px_def py_def pz_def fdot_def
      length_Suc_conv)

text \<open>
  Claim C7, as stated, says that the alignment term is the absolute value of the dot
  product. For a query point with orientation \<open>(1, 0, 0)\<close> whose nearest target point,
  at distance 1, has orientation \<open>(-1, 0, 0)\<close>, and \<open>max_proximity = 0.5\<close>, the recorded
  alignment term is \<open>-1\<close>.
\<close>

theorem nblast_components_signed_counterexample:
  "neuron_comparison_nblast_components orient_x
     (Dp [((Fin 0, Fin 0, Fin 0), (Fin 1, Fin 0, Fin 0))])
     (Dp [((Fin 1, Fin 0, Fin 0), (Fin (- 1), Fin 0, Fin 0))]) 1000 5 True (Some (Fin (1 / 2)))
   = Inr [(Fin 1, Fin (- 1))]"
  by (simp add: neuron_comparison_nblast_components_def as_dp_def kd_query_def nearest_def
      py_min_def dist3_def norm3_def psub_def px_def py_def pz_def fdot_def)

section \<open>Results for the bidirectional pair score\<close>

lemma upt_2: "[0..<2] = [0, 1]"
  by (simp add: upt_rec)

lemma interpolate_path_a: "interpolate_path [(0, 0, 0), (1, 0, 0)] 1 = Inr [(0, 0, 0)]"
  by (simp add: interpolate_path_def cumlen_of_def norm3_def psub_def px_def py_def pz_def
      resample_nni_def modf_def trunc_def linspace_def np_interp_def interp_index_def Let_def)

lemma interpolate_path_b:
  "interpolate_path [(0, 0, 0), (1, 0, 0), (2, 0, 0)] 1 = Inr [(0, 0, 0), (2, 0, 0)]"
  by (simp add: interpolate_path_def cumlen_of_def norm3_def psub_def px_def py_def pz_def
      resample_nni_def modf_def trunc_def linspace_def np_interp_def interp_index_def Let_def
      upt_2)

lemma neuron_to_dotprop_a:
  "neuron_to_dotprop orient neuron_a 1 5 None
     = Inr [((Fin 0, Fin 0, Fin 0), orient [(0, 0, 0)] (Suc 0) (0, 0, 0))]"
  by (simp add: neuron_to_dotprop_def paths_to_dotprop_def neuron_a_def dict_get_def
      dotprop_path_def interpolate_path_a fvec_of_def px_def py_def pz_def)

lemma neuron_to_dotprop_b:
  "neuron_to_dotprop orient neuron_b 1 5 None
     = Inr [((Fin 0, Fin 0, Fin 0), orient [(0, 0, 0), (2, 0, 0)] (Suc (Suc 0)) (0, 0, 0)),
            ((Fin 2, Fin 0, Fin 0), orient [(0, 0, 0), (2, 0, 0)] (Suc (Suc 0)) (2, 0, 0))]"
  by (simp add: neuron_to_dotprop_def paths_to_dotprop_def neuron_b_def dict_get_def
      dotprop_path_def interpolate_path_b fvec_of_def px_def py_def pz_def)

lemma components_a_b:
  "neuron_comparison_nblast_components orient (Nrn neuron_a) (Nrn neuron_b) 1 5 False None
     = Inr [(Fin 0, Fin 1)]"
  by (simp add: neuron_comparison_nblast_components_def as_dp_def neuron_to_dotprop_a
      neuron_to_dotprop_b kd_query_def nearest_def py_min_def dist3_def norm3_def psub_def
      px_def py_def pz_def)

lemma components_b_a:
  "neuron_comparison_nblast_components orient (Nrn neuron_b) (Nrn neuron_a) 1 5 False None
     = Inr [(Fin 0, Fin 1), (Fin 2, Fin 1)]"
  by (simp add: neuron_comparison_nblast_components_def as_dp_def neuron_to_dotprop_a
      neuron_to_dotprop_b kd_query_def nearest_def py_min_def dist3_def norm3_def psub_def
      px_def py_def pz_def)

lemma score_example_near: "score score_lookup_example (Fin 0) (Fin 1) = Inr (Fin 1)"
  by (simp add: score_def score_lookup_example_def bisect_def np_getitem2_def
      np_axis_index_def shape0_def shape1_def)

lemma score_example_far: "score score_lookup_example (Fin 2) (Fin 1) = Inr (Fin (- 1))"
  by (simp add: score_def score_lookup_example_def bisect_def np_getitem2_def
      np_axis_index_def shape0_def shape1_def)

lemma nblast_neuron_pair_bidirectional_forward_only:
  assumes "neuron_comparison_nblast_components orient (Nrn nrn_q) (Nrn nrn_t) rd k False None
             = Inr d_and_udotv"
    and "neuron_comparison_nblast_components orient (Nrn nrn_t) (Nrn nrn_q) rd k False None
             = Inr d_and_udotv_b"
    and "nblast_dist_fun d_and_udotv sl = Inr S"
    and "max_blast_score (length d_and_udotv) sl = Inr M"
  shows "nblast_neuron_pair orient nrn_q nrn_t sl rd k True nz
           = Inr (fl_sqrt (fl_mul (py_max0 (fl_div S M)) (py_max0 (fl_div S M))))"
  using assms by (simp add: nblast_neuron_pair_def)

text \<open>
  Claim C1. The claim: the bidirectional score of a pair is the same in both orders.
  In the code the reverse components \<open>d_and_udotv_b\<close> are computed and not used:
  \<open>S_b\<close> is computed from the forward components, so the result is the forward score
  alone. For a neuron resampled to the point \<open>(0,0,0)\<close> and a neuron resampled to the
  points \<open>(0,0,0)\<close> and \<open>(2,0,0)\<close> the score is 1 in one order and 0 in the other.
\<close>

theorem nblast_neuron_pair_bidirectional_asymmetric:
  "nblast_neuron_pair orient neuron_a neuron_b score_lookup_example 1 5 True False = Inr (Fin 1)
   \<and> nblast_neuron_pair orient neuron_b neuron_a score_lookup_example 1 5 True False = Inr (Fin 0)"
  by (simp add: nblast_neuron_pair_def components_a_b components_b_a nblast_dist_fun_def
      max_blast_score_def score_example_near score_example_far py_max0_def
      numeral_2_eq_2)

section \<open>Results for the symmetric similarity matrix\<close>

text \<open>
  Claim C10. The result of \<open>exact_nblast\<close> does not depend on its argument
  \<open>max_proximity\<close>: two runs that differ in nothing else return the same matrix, or
  raise the same error.
\<close>

theorem exact_nblast_ignores_max_proximity:
  "exact_nblast orient filter_neurons_by_length sl nrns_q nrns_t resample_distance num_nn
     max_proximity min_strahler min_length as_dotprop
   = exact_nblast orient filter_neurons_by_length sl nrns_q nrns_t resample_distance num_nn
     max_proximity' min_strahler min_length as_dotprop"
  by (simp add: exact_nblast_def)

text \<open>
  The batch function itself does depend on \<open>max_proximity\<close> (the two lemmas below give
  different scores for the example pair), and \<open>exact_nblast\<close> returns the same matrix
  for the example whatever \<open>max_proximity\<close> it is given.
\<close>

lemmas nblast_eval_defs =
  nblast_neurons_def dotprop_dict_def nblast_neuron_pair_for_mp_def dp_of_def
  neuron_comparison_nblast_components_def as_dp_def kd_query_def fvec_of_def px_def py_def
  pz_def nearest_def dist3_def norm3_def psub_def py_min_def nblast_dist_fun_def
  max_blast_score_def score_def bisect_def np_getitem2_def np_axis_index_def shape0_def
  shape1_def fdot_def numeral_2_eq_2

lemma nblast_neurons_example_ungated:
  "nblast_neurons orient_x score_lookup_2x2 dotprops_example (Some dotprops_example) 1000 5 None
     True None True
   = Inr [(''a (1)'', ''a (1)'', Fin 1), (''a (1)'', ''b (2)'', Fin (1 / 4)),
          (''b (2)'', ''a (1)'', Fin (1 / 4)), (''b (2)'', ''b (2)'', Fin 1)]"
  by (simp add: nblast_eval_defs dotprops_example_def score_lookup_2x2_def)

lemma nblast_neurons_example_gated:
  "nblast_neurons orient_x score_lookup_2x2 dotprops_example (Some dotprops_example) 1000 5 None
     True (Some (Fin (- 1))) True
   = Inr [(''a (1)'', ''a (1)'', Fin 1), (''a (1)'', ''b (2)'', Fin (- 1 / 4)),
          (''b (2)'', ''a (1)'', Fin (- 1 / 4)), (''b (2)'', ''b (2)'', Fin 1)]"
  by (simp add: nblast_eval_defs dotprops_example_def score_lookup_2x2_def)

lemma pivot_example:
  "pivot [(''a (1)'', ''a (1)'', Fin 1), (''a (1)'', ''b (2)'', Fin (1 / 4)),
          (''b (2)'', ''a (1)'', Fin (1 / 4)), (''b (2)'', ''b (2)'', Fin 1)]
   = Inr \<lparr>m_index = [''a (1)'', ''b (2)''], m_columns = [''a (1)'', ''b (2)''],
          m_vals = [[Fin 1, Fin (1 / 4)], [Fin (1 / 4), Fin 1]]\<rparr>"
  by (simp add: pivot_def Let_def)


lemma sqrt_sixteenth: "sqrt (1 / 16) = 1 / 4"
  by (rule real_sqrt_unique) (simp_all add: power2_eq_square)

lemma exact_nblast_example:
  "exact_nblast orient_x (\<lambda>nrns ml. nrns) score_lookup_2x2 dotprops_example dotprops_example
     1000 5 (Some (Fin (- 1))) None None True
   = Inr \<lparr>m_index = [''a (1)'', ''b (2)''], m_columns = [''a (1)'', ''b (2)''],
          m_vals = [[Fin 1, Fin (1 / 4)], [Fin (1 / 4), Fin 1]]\<rparr>"
  by (simp add: exact_nblast_def Let_def nblast_neurons_example_ungated pivot_def m_map_def
      m_multiply_def align_labels_def m_cell_def clamp_neg_def fillna0_def sqrt_sixteenth)

section \<open>Results for the fusion of the evidence tables\<close>










section \<open>Results for the bipartite matching\<close>

lemmas graph_eval_defs =
  similarity_matrix_to_adjacency_def add_nodes_from_def add_node_def m_cell_def add_edge_def
  same_edge_def remove_isolates_def touches_def Let_def



lemma name_number_to_id_examples:
  "name_number_to_id ''q1 (1)'' = Inr 1" "name_number_to_id ''q2 (2)'' = Inr 2"
  "name_number_to_id ''t1 (3)'' = Inr 3" "name_number_to_id ''t2 (4)'' = Inr 4"
  "name_number_to_id ''a (1)'' = Inr 1" "name_number_to_id ''b (2)'' = Inr 2"
  by (simp_all add: name_number_to_id_def re_search_id_def is_digit_def int_of_digits_def)






lemma adj_self_ab:
  "similarity_matrix_to_adjacency Sb_self_ab (Fin (2 / 5))
   = Inr \<lparr>g_nodes = [(''a (1)'', Suc 0), (''b (2)'', Suc 0)],
           g_edges = [((''a (1)'', ''b (2)''), Fin (9 / 10))]\<rparr>"
  by (simp add: graph_eval_defs Sb_self_ab_def)

lemma adj_self_ba:
  "similarity_matrix_to_adjacency Sb_self_ba (Fin (2 / 5))
   = Inr \<lparr>g_nodes = [(''a (1)'', Suc 0), (''b (2)'', Suc 0)],
           g_edges = [((''b (2)'', ''a (1)''), Fin (9 / 10))]\<rparr>"
  by (simp add: graph_eval_defs Sb_self_ba_def)

lemma mwm_self:
  "max_weight_matching sf \<lparr>g_nodes = [(''a (1)'', Suc 0), (''b (2)'', Suc 0)],
           g_edges = [((''a (1)'', ''b (2)''), Fin (9 / 10))]\<rparr>
   = [if sf ''a (1)'' ''b (2)'' then (''a (1)'', ''b (2)'') else (''b (2)'', ''a (1)'')]"
  "max_weight_matching sf \<lparr>g_nodes = [(''a (1)'', Suc 0), (''b (2)'', Suc 0)],
           g_edges = [((''b (2)'', ''a (1)''), Fin (9 / 10))]\<rparr>
   = [if sf ''a (1)'' ''b (2)'' then (''a (1)'', ''b (2)'') else (''b (2)'', ''a (1)'')]"
  by (simp_all add: max_weight_matching_def is_matching_def weight_sum_def orient_pair_def Let_def)

lemma cells_self:
  "m_cell Sb_self_ab ''b (2)'' ''a (1)'' = Some (Fin (1 / 10))"
  "m_cell Sb_self_ba ''a (1)'' ''b (2)'' = Some (Fin (1 / 10))"
  by (simp_all add: m_cell_def Sb_self_ab_def Sb_self_ba_def)

text \<open>
  Claim C4. The claim: no two rows share a query or a target, and the weight of every
  row that was not forced exceeds \<open>min_similarity\<close>. The graph nodes are the labels, so
  a label that is both a row and a column of the matrix (a set of neurons matched against
  itself) is one node, marked as a target; then no end of a matched pair is in \<open>Qset\<close>,
  and the code reads the score of the pair from the cell of the opposite direction. For
  the two matrices below the graph is the same, one edge between \<open>a\<close> and \<open>b\<close> from
  a cell of 0.9: whichever end the library returns first, for one of the two matrices the
  reported weight is the opposite cell, 0.1, which is below the threshold 0.4.
\<close>

theorem max_match_similarity_shared_labels_below_threshold:
  "max_match_similarity (\<lambda>u v. True) Sb_self_ab (Fin (4 / 10)) None (Fin 1)
     = Inr [\<lparr>r_S = Fin (1 / 10), r_Query_name = ''b (2)'', r_Query_id = 2,
              r_Target_name = ''a (1)'', r_Target_id = 1\<rparr>]
   \<and> max_match_similarity (\<lambda>u v. False) Sb_self_ba (Fin (4 / 10)) None (Fin 1)
     = Inr [\<lparr>r_S = Fin (1 / 10), r_Query_name = ''a (1)'', r_Query_id = 1,
              r_Target_name = ''b (2)'', r_Target_id = 2\<rparr>]"
  by (simp add: max_match_similarity_def adj_self_ab adj_self_ba mwm_self match_to_row_def
      cells_self name_number_to_id_examples sort_desc_def Let_def)



















end
